theory Spec2Isabelle
  imports Complex_Main "HOL-Library.Sublist" "HOL-Library.Multiset"
begin

section \<open>The retrieval endpoint of Gen-Aistro (app/api/search)\<close>

text \<open>
  The endpoint validates a request, loads the corpus through a cache, filters it, scores
  every remaining chunk against the query vector, sorts by score, re-selects with Maximal
  Marginal Relevance and shapes the response. The definitions follow the route's source
  function by function: \<open>loadPapers\<close>, \<open>applyFilters\<close>, \<open>mmrDiversification\<close>,
  \<open>validateInput\<close> and \<open>POST\<close>.

  JavaScript numbers are modelled as real numbers: rounding, infinities and NaN are not
  represented. An array of chunk records is a list, an object with a fixed set of keys is
  a record, and a key that may be missing is an \<open>option\<close>.
\<close>

subsection \<open>Values of a request body\<close>

text \<open>
  \<open>queryEmbedding\<close> and \<open>topK\<close> reach \<open>validateInput\<close> as whatever the JSON body held, so
  they are modelled as untyped values. \<open>JUndefined\<close> is a key that is missing.
\<close>

datatype js =
    JUndefined
  | JNull
  | JBool bool
  | JNum real
  | JStr string
  | JArr "js list"
  | JObj "(string \<times> js) list"

text \<open>What \<open>if (v)\<close>, \<open>!v\<close> and \<open>v && ...\<close> test.\<close>

fun truthy :: "js \<Rightarrow> bool" where
  "truthy JUndefined = False"
| "truthy JNull = False"
| "truthy (JBool b) = b"
| "truthy (JNum r) = (r \<noteq> 0)"
| "truthy (JStr s) = (s \<noteq> [])"
| "truthy (JArr xs) = True"
| "truthy (JObj kvs) = True"

text \<open>\<open>Array.isArray(v)\<close>.\<close>

fun isArray :: "js \<Rightarrow> bool" where
  "isArray (JArr xs) = True"
| "isArray v = False"

text \<open>\<open>typeof v !== 'number'\<close>.\<close>

fun notNumber :: "js \<Rightarrow> bool" where
  "notNumber (JNum r) = False"
| "notNumber v = True"

text \<open>
  The number a value stands for in \<open>v < 1\<close>, \<open>v > 10\<close>, \<open>n <= v\<close>. Only the values that
  \<open>validateInput\<close> lets through as \<open>topK\<close> are ever compared: a number, or one of the
  falsy values \<open>null\<close>, \<open>false\<close> and the empty string, each of which converts to 0.
\<close>

fun toNumber :: "js \<Rightarrow> real" where
  "toNumber (JNum r) = r"
| "toNumber v = 0"

subsection \<open>Chunk records, scored candidates, filter specifications\<close>

text \<open>
  A chunk record of the corpus. \<open>chunk_text\<close> is the property \<open>text\<close>; \<open>year\<close> and \<open>url\<close>
  may be missing.
\<close>

record chunk =
  doc_id :: string
  doc_title :: string
  year :: "int option"
  url :: "string option"
  chunk_id :: string
  chunk_text :: string
  embedding :: "real list"

text \<open>
  The object built for every filtered chunk in \<open>POST\<close>: the chunk's own seven
  properties and its \<open>score\<close>.
\<close>

record scored = chunk +
  score :: real

record year_filter =
  year_min :: "int option"
  year_max :: "int option"

record keyword_filter =
  kw_include :: "string list option"
  kw_exclude :: "string list option"

text \<open>
  A filter object. \<open>None\<close> in a field is a key that is missing (or holds a falsy value);
  the whole filter is a \<open>filter_spec option\<close>, \<open>None\<close> when the request has none or
  holds a falsy value there. A truthy value that is not an object has none of the three
  keys, as the empty filter object.
\<close>

record filter_spec =
  filter_year :: "year_filter option"
  filter_keywords :: "keyword_filter option"
  filter_doc_ids :: "string list option"

subsection \<open>Strings\<close>

text \<open>
  \<open>toLowerCase\<close> on the ASCII letters; \<open>s.includes(t)\<close> holds when \<open>t\<close> occurs in \<open>s\<close> as
  a contiguous run of characters.
\<close>

definition lower_char :: "char \<Rightarrow> char" where
  "lower_char c =
     (let n = (of_char c :: nat) in if 65 \<le> n \<and> n \<le> 90 then char_of (n + 32) else c)"

definition toLowerCase :: "string \<Rightarrow> string" where
  "toLowerCase s = map lower_char s"

definition str_includes :: "string \<Rightarrow> string \<Rightarrow> bool" where
  "str_includes s t = sublist t s"

subsection \<open>applyFilters\<close>

text \<open>\<open>p.year && p.year >= m\<close>: a missing year and the year 0 are both falsy.\<close>

definition year_at_least :: "int \<Rightarrow> chunk \<Rightarrow> bool" where
  "year_at_least m p = (case year p of None \<Rightarrow> False | Some y \<Rightarrow> y \<noteq> 0 \<and> y \<ge> m)"

definition year_at_most :: "int \<Rightarrow> chunk \<Rightarrow> bool" where
  "year_at_most m p = (case year p of None \<Rightarrow> False | Some y \<Rightarrow> y \<noteq> 0 \<and> y \<le> m)"

text \<open>
  \<open>terms.some(term => p.text.toLowerCase().includes(term) ||
  p.doc_title.toLowerCase().includes(term))\<close>
\<close>

definition some_term_in :: "string list \<Rightarrow> chunk \<Rightarrow> bool" where
  "some_term_in terms p =
     list_ex (\<lambda>term. str_includes (toLowerCase (chunk_text p)) term
                    \<or> str_includes (toLowerCase (doc_title p)) term) terms"

definition yearStep :: "year_filter option \<Rightarrow> chunk list \<Rightarrow> chunk list" where
  "yearStep y filtered =
     (case y of
        None \<Rightarrow> filtered
      | Some yf \<Rightarrow>
          (let filtered1 = (case year_min yf of
                              None \<Rightarrow> filtered
                            | Some m \<Rightarrow> filter (year_at_least m) filtered)
           in (case year_max yf of
                 None \<Rightarrow> filtered1
               | Some m \<Rightarrow> filter (year_at_most m) filtered1)))"

definition keywordStep :: "keyword_filter option \<Rightarrow> chunk list \<Rightarrow> chunk list" where
  "keywordStep k filtered =
     (case k of
        None \<Rightarrow> filtered
      | Some kf \<Rightarrow>
          (let filtered1 = (case kw_include kf of
                              None \<Rightarrow> filtered
                            | Some inc \<Rightarrow>
                                if length inc > 0
                                then filter (some_term_in (map toLowerCase inc)) filtered
                                else filtered)
           in (case kw_exclude kf of
                 None \<Rightarrow> filtered1
               | Some exc \<Rightarrow>
                   if length exc > 0
                   then filter (\<lambda>p. \<not> some_term_in (map toLowerCase exc) p) filtered1
                   else filtered1)))"

definition docIdStep :: "string list option \<Rightarrow> chunk list \<Rightarrow> chunk list" where
  "docIdStep d filtered =
     (case d of
        None \<Rightarrow> filtered
      | Some ids \<Rightarrow>
          if length ids > 0 then filter (\<lambda>p. List.member ids (doc_id p)) filtered
          else filtered)"

definition applyFilters :: "chunk list \<Rightarrow> filter_spec option \<Rightarrow> chunk list" where
  "applyFilters papers flt =
     (case flt of
        None \<Rightarrow> papers
      | Some f \<Rightarrow>
          docIdStep (filter_doc_ids f)
            (keywordStep (filter_keywords f)
              (yearStep (filter_year f) papers)))"

subsection \<open>Cosine similarity\<close>

text \<open>
  Modelled from the spec: \<open>utils/cosine.js\<close>, which \<open>POST\<close> and \<open>mmrDiversification\<close>
  import \<open>cosineSimilarity\<close> from, is not among the sources. Section 4.1 of the
  specification gives it as the dot product divided by the product of the Euclidean
  norms, and 0 when either norm is 0. The functions below take the similarity as a
  parameter \<open>cs\<close>, so what is proved of them holds for every similarity function; this
  definition is what concrete inputs are evaluated with.
\<close>

definition dot :: "real list \<Rightarrow> real list \<Rightarrow> real" where
  "dot a b = sum_list (map2 (*) a b)"

definition norm2 :: "real list \<Rightarrow> real" where
  "norm2 a = sqrt (dot a a)"

definition cosineSimilarity :: "real list \<Rightarrow> real list \<Rightarrow> real" where
  "cosineSimilarity a b =
     (if norm2 a = 0 \<or> norm2 b = 0 then 0 else dot a b / (norm2 a * norm2 b))"

subsection \<open>mmrDiversification\<close>

type_synonym similarity = "real list \<Rightarrow> real list \<Rightarrow> real"

text \<open>
  The inner \<open>for (const selectedItem of selected)\<close> loop: \<open>maxSimilarity\<close> starts at 0 and
  takes \<open>Math.max\<close> with the similarity to every selected item.
\<close>

definition maxSimilarity :: "similarity \<Rightarrow> scored \<Rightarrow> scored list \<Rightarrow> real" where
  "maxSimilarity cs r selected =
     fold (\<lambda>selectedItem m. max m (cs (embedding r) (embedding selectedItem))) selected 0"

definition mmrScore :: "similarity \<Rightarrow> real \<Rightarrow> scored list \<Rightarrow> scored \<Rightarrow> real" where
  "mmrScore cs lam selected r = lam * score r - (1 - lam) * maxSimilarity cs r selected"

text \<open>
  \<open>mmrScore > bestScore\<close>, where \<open>bestScore\<close> starts at \<open>-Infinity\<close> (\<open>None\<close>), below
  every number.
\<close>

fun exceeds :: "real \<Rightarrow> real option \<Rightarrow> bool" where
  "exceeds x None = True"
| "exceeds x (Some b) = (x > b)"

text \<open>
  The \<open>for (let i = 0; i < remaining.length; i++)\<close> loop, from index \<open>i\<close> on; the list
  argument is what is left of \<open>remaining\<close> from \<open>i\<close>.
\<close>

fun forLoop :: "similarity \<Rightarrow> real \<Rightarrow> scored list \<Rightarrow> scored list \<Rightarrow> nat \<Rightarrow> nat \<Rightarrow> real option \<Rightarrow> nat" where
  "forLoop cs lam selected [] i bestIdx bestScore = bestIdx"
| "forLoop cs lam selected (r # rs) i bestIdx bestScore =
     (if exceeds (mmrScore cs lam selected r) bestScore
      then forLoop cs lam selected rs (i + 1) i (Some (mmrScore cs lam selected r))
      else forLoop cs lam selected rs (i + 1) bestIdx bestScore)"

definition bestIndex :: "similarity \<Rightarrow> real \<Rightarrow> scored list \<Rightarrow> scored list \<Rightarrow> nat" where
  "bestIndex cs lam selected remaining = forLoop cs lam selected remaining 0 0 None"

text \<open>\<open>remaining.splice(i, 1)\<close>: what is left of the array.\<close>

definition splice1 :: "nat \<Rightarrow> 'a list \<Rightarrow> 'a list" where
  "splice1 i xs = take i xs @ drop (Suc i) xs"

text \<open>The \<open>while (selected.length < maxResults && remaining.length > 0)\<close> loop.\<close>

function whileLoop :: "similarity \<Rightarrow> real \<Rightarrow> real \<Rightarrow> scored list \<Rightarrow> scored list \<Rightarrow> scored list" where
  "whileLoop cs lam maxResults selected remaining =
     (if real (length selected) < maxResults \<and> length remaining > 0
      then (let bestIdx = bestIndex cs lam selected remaining
            in whileLoop cs lam maxResults
                 (selected @ [remaining ! bestIdx]) (splice1 bestIdx remaining))
      else selected)"
  by pat_completeness auto
termination
proof (relation "measure (\<lambda>(cs, lam, maxResults, selected, remaining). length remaining)")
  show "wf (measure (\<lambda>(cs, lam, maxResults, selected, remaining). length remaining))"
    by simp
next
  fix cs :: similarity and lam maxResults :: real and selected remaining :: "scored list"
    and bestIdx :: nat
  assume c: "real (length selected) < maxResults \<and> 0 < length remaining"
    and b: "bestIdx = bestIndex cs lam selected remaining"
  have inner: "forLoop cs lam selected rs i k bs < i + length rs"
    if "k < i \<or> (rs \<noteq> [] \<and> bs = None)" for rs i k bs
    using that
  proof (induction rs arbitrary: i k bs)
    case Nil
    then show ?case by simp
  next
    case (Cons r rs)
    have "forLoop cs lam selected rs (i + 1) i (Some (mmrScore cs lam selected r))
            < (i + 1) + length rs"
      by (rule Cons.IH) simp
    moreover have "forLoop cs lam selected rs (i + 1) k bs < (i + 1) + length rs"
      if "\<not> exceeds (mmrScore cs lam selected r) bs"
    proof (rule Cons.IH)
      from that have "bs \<noteq> None" by (cases bs) auto
      with Cons.prems show "k < i + 1 \<or> rs \<noteq> [] \<and> bs = None" by auto
    qed
    ultimately show ?case by auto
  qed
  from c have "remaining \<noteq> []" by auto
  then have "bestIdx < length remaining"
    unfolding b bestIndex_def using inner [of 0 0 remaining None] by simp
  then have "length (splice1 bestIdx remaining) < length remaining"
    by (simp add: splice1_def)
  then show "((cs, lam, maxResults, selected @ [remaining ! bestIdx], splice1 bestIdx remaining),
              (cs, lam, maxResults, selected, remaining))
             \<in> measure (\<lambda>(cs, lam, maxResults, selected, remaining). length remaining)"
    by simp
qed

declare whileLoop.simps [simp del]

text \<open>
  \<open>mmrDiversification(results, queryEmbedding, lambda, maxResults)\<close>. The query vector is
  a parameter the body never reads.
\<close>

definition mmrDiversification :: "similarity \<Rightarrow> scored list \<Rightarrow> real list \<Rightarrow> real \<Rightarrow> real \<Rightarrow> scored list" where
  "mmrDiversification cs results queryEmbedding lam maxResults =
     (if real (length results) \<le> maxResults then results
      else (case results of
              [] \<Rightarrow> whileLoop cs lam maxResults [] []
            | r # remaining \<Rightarrow> whileLoop cs lam maxResults [r] remaining))"

subsection \<open>Scoring and sorting (the first steps of POST after filtering)\<close>

text \<open>
  \<open>filteredPapers.map(paper => ({ doc_id: paper.doc_id, ..., score:
  cosineSimilarity(queryEmbedding, paper.embedding) }))\<close>
\<close>

definition computeSimilarities :: "similarity \<Rightarrow> real list \<Rightarrow> chunk list \<Rightarrow> scored list" where
  "computeSimilarities cs queryEmbedding filteredPapers =
     map (\<lambda>paper.
            \<lparr> doc_id = doc_id paper,
              doc_title = doc_title paper,
              year = year paper,
              url = url paper,
              chunk_id = chunk_id paper,
              chunk_text = chunk_text paper,
              embedding = embedding paper,
              score = cs queryEmbedding (embedding paper) \<rparr>)
         filteredPapers"

text \<open>
  \<open>similarities.sort((a, b) => b.score - a.score)\<close>: \<open>Array.prototype.sort\<close> is stable, and
  the comparator puts the higher score first. \<open>sort_key\<close> is the stable insertion sort of
  the list library; the key is the negated score.
\<close>

definition sortByScore :: "scored list \<Rightarrow> scored list" where
  "sortByScore similarities = sort_key (\<lambda>c. - score c) similarities"

text \<open>Scoring, sorting and \<open>mmrDiversification(similarities, queryEmbedding, 0.3, topK)\<close>.\<close>

definition rank :: "similarity \<Rightarrow> real list \<Rightarrow> real \<Rightarrow> chunk list \<Rightarrow> scored list" where
  "rank cs queryEmbedding topK filteredPapers =
     mmrDiversification cs (sortByScore (computeSimilarities cs queryEmbedding filteredPapers))
       queryEmbedding 0.3 topK"

subsection \<open>Result objects\<close>

text \<open>
  A result is what the rest pattern \<open>({ embedding, ...rest }) => rest\<close> leaves of a scored
  candidate. The pattern works on the object's list of properties, so the candidate's
  properties are listed in the order the object literal wrote them. A property whose
  value is missing in the chunk holds \<open>undefined\<close>.
\<close>

type_synonym obj = "(string \<times> js) list"

definition properties :: "scored \<Rightarrow> obj" where
  "properties c =
     [ (''doc_id'', JStr (doc_id c)),
       (''doc_title'', JStr (doc_title c)),
       (''year'', (case year c of None \<Rightarrow> JUndefined | Some y \<Rightarrow> JNum (of_int y))),
       (''url'', (case url c of None \<Rightarrow> JUndefined | Some u \<Rightarrow> JStr u)),
       (''chunk_id'', JStr (chunk_id c)),
       (''text'', JStr (chunk_text c)),
       (''embedding'', JArr (map JNum (embedding c))),
       (''score'', JNum (score c)) ]"

definition omit :: "string \<Rightarrow> obj \<Rightarrow> obj" where
  "omit k ob = filter (\<lambda>kv. fst kv \<noteq> k) ob"

definition stripEmbedding :: "scored \<Rightarrow> obj" where
  "stripEmbedding c = omit ''embedding'' (properties c)"

subsection \<open>loadPapers\<close>

text \<open>
  The module's two variables, \<open>papersCache\<close> and \<open>cacheTimestamp\<close> (both \<open>null\<close> at
  start), and a count of the calls to \<open>fs.readFileSync\<close> made so far, which the source
  does not keep and which records that storage was touched.
\<close>

record server =
  papersCache :: "chunk list option"
  cacheTimestamp :: "int option"
  storageReads :: nat

definition CACHE_DURATION :: int where
  "CACHE_DURATION = 5 * 60 * 1000"

text \<open>
  \<open>papersCache && cacheTimestamp && (now - cacheTimestamp) < CACHE_DURATION\<close>: an array
  is truthy even when empty, a timestamp is truthy unless it is 0. The result is the
  cached collection when the test succeeds.
\<close>

definition freshCache :: "server \<Rightarrow> int \<Rightarrow> chunk list option" where
  "freshCache s now =
     (case papersCache s of
        None \<Rightarrow> None
      | Some cached \<Rightarrow>
          (case cacheTimestamp s of
             None \<Rightarrow> None
           | Some t \<Rightarrow> if t \<noteq> 0 \<and> now - t < CACHE_DURATION then Some cached else None))"

text \<open>
  What \<open>JSON.parse(fs.readFileSync(filePath, 'utf-8'))\<close> does on a reload: it throws
  when the file cannot be read or does not hold JSON (\<open>Unreadable\<close>), it evaluates to
  \<open>null\<close> when that is what the file holds (\<open>JsonNull\<close>), or it evaluates to the array
  of chunk records (\<open>Papers\<close>). A file that holds any other JSON value (a number, a
  string, an object) is not modelled: the file is written by a pipeline that emits
  chunk records.
\<close>

datatype stored = Unreadable | JsonNull | Papers "chunk list"

text \<open>
  \<open>now\<close> is what \<open>Date.now()\<close> returns, in milliseconds. An error is the message of the
  \<open>Error\<close> thrown. The \<open>try\<close> block assigns \<open>papersCache\<close> and \<open>cacheTimestamp\<close> before
  it reads \<open>data.length\<close> for the log line; on \<open>null\<close> that read throws, and the \<open>catch\<close>
  block turns it into the load error with both variables already overwritten
  (\<open>papersCache\<close> is \<open>null\<close> again, that is \<open>None\<close>).
\<close>

definition loadPapers :: "server \<Rightarrow> int \<Rightarrow> stored \<Rightarrow> (string + chunk list) \<times> server" where
  "loadPapers s now file =
     (case freshCache s now of
        Some cached \<Rightarrow> (Inr cached, s)
      | None \<Rightarrow>
          (let s1 = s\<lparr>storageReads := storageReads s + 1\<rparr>
           in (case file of
                 Unreadable \<Rightarrow> (Inl ''Failed to load papers data'', s1)
               | JsonNull \<Rightarrow>
                   (Inl ''Failed to load papers data'',
                    s1\<lparr>papersCache := None, cacheTimestamp := Some now\<rparr>)
               | Papers data \<Rightarrow>
                   (Inr data, s1\<lparr>papersCache := Some data, cacheTimestamp := Some now\<rparr>))))"

subsection \<open>validateInput\<close>

text \<open>The decimal digits of a number, as a template literal prints an array's length.\<close>

fun decimal :: "nat \<Rightarrow> string" where
  "decimal n =
     (if n < 10 then [char_of (48 + n)]
      else decimal (n div 10) @ [char_of (48 + n mod 10)])"

declare decimal.simps [simp del]

text \<open>\<open>queryEmbedding.length\<close> of an array.\<close>

fun arrayLength :: "js \<Rightarrow> nat" where
  "arrayLength (JArr xs) = length xs"
| "arrayLength v = 0"

text \<open>
  \<open>filter.year && (filter.year.min < 1950 || filter.year.max > 2030)\<close>: a comparison with
  a bound that is missing is false.
\<close>

definition yearOutOfRange :: "year_filter option \<Rightarrow> bool" where
  "yearOutOfRange y =
     (case y of
        None \<Rightarrow> False
      | Some yf \<Rightarrow>
          (case year_min yf of None \<Rightarrow> False | Some m \<Rightarrow> m < 1950)
          \<or> (case year_max yf of None \<Rightarrow> False | Some m \<Rightarrow> m > 2030))"

definition validateInput :: "js \<Rightarrow> js \<Rightarrow> filter_spec option \<Rightarrow> string + unit" where
  "validateInput queryEmbedding topK flt =
     (if \<not> truthy queryEmbedding \<or> \<not> isArray queryEmbedding
      then Inl ''Invalid query embedding: must be an array''
      else if arrayLength queryEmbedding \<noteq> 384
      then Inl (''Invalid embedding dimension: expected 384, got ''
                @ decimal (arrayLength queryEmbedding))
      else if truthy topK \<and> (notNumber topK \<or> toNumber topK < 1 \<or> toNumber topK > 10)
      then Inl ''Invalid topK: must be a number between 1 and 10''
      else (case flt of
              None \<Rightarrow> Inr ()
            | Some f \<Rightarrow>
                if yearOutOfRange (filter_year f)
                then Inl ''Invalid year range: must be between 1950 and 2030''
                else Inr ()))"

subsection \<open>POST\<close>

text \<open>
  The three values that the first line of \<open>POST\<close> destructures from the parsed body;
  a key the body does not have is \<open>JUndefined\<close>, or \<open>None\<close> for the filter.
\<close>

record request =
  req_queryEmbedding :: js
  req_topK :: js
  req_filter :: "filter_spec option"

text \<open>
  The \<open>metadata\<close> object of a response; a key the object does not have is \<open>None\<close>.
  \<open>meta_error\<close> is its key \<open>error\<close>, which only the \<open>catch\<close> block sets. In a response,
  \<open>error\<close> is the message, \<open>meta\<close> the \<open>metadata\<close> object and \<open>status\<close> the HTTP status.
\<close>

record metadata =
  total_chunks :: "nat option"
  filtered_chunks :: "nat option"
  returned_chunks :: "nat option"
  filter_applied :: "bool option"
  mmr_diversification :: "bool option"
  meta_error :: "bool option"

record response =
  error :: "string option"
  results :: "obj list"
  meta :: metadata
  status :: nat

text \<open>The \<open>catch\<close> block of \<open>POST\<close>.\<close>

definition errorResponse :: "string \<Rightarrow> response" where
  "errorResponse message =
     \<lparr> error = Some (if message = [] then ''Internal server error'' else message),
       results = [],
       meta = \<lparr> total_chunks = None, filtered_chunks = None, returned_chunks = None,
                filter_applied = None, mmr_diversification = None, meta_error = Some True \<rparr>,
       status = (if str_includes message ''Invalid'' then 400 else 500) \<rparr>"

text \<open>
  The elements of the query array as numbers, when all of them are numbers. Scoring an
  array that holds anything else depends on what \<open>cosineSimilarity\<close> makes of such an
  element, which in JavaScript arithmetic is NaN for most values; real numbers have no
  NaN, and the model does not follow the request further (\<open>NonNumericQuery\<close>).
\<close>

fun numbers :: "js list \<Rightarrow> real list option" where
  "numbers [] = Some []"
| "numbers (JNum r # vs) = map_option ((#) r) (numbers vs)"
| "numbers (v # vs) = None"

fun elements :: "js \<Rightarrow> js list" where
  "elements (JArr xs) = xs"
| "elements v = []"

datatype outcome = Responded response | NonNumericQuery

text \<open>
  \<open>const { queryEmbedding, topK = 5, filter } = await req.json()\<close>: the default applies to
  a key that is missing, not to one that holds \<open>null\<close> or 0.
\<close>

definition topKOrDefault :: "request \<Rightarrow> js" where
  "topKOrDefault req = (if req_topK req = JUndefined then JNum 5 else req_topK req)"

text \<open>
  What \<open>const { queryEmbedding, topK = 5, filter } = await req.json()\<close> does, the first
  statement inside the \<open>try\<close> block: it throws an error with some message (\<open>Thrown\<close>),
  when \<open>req.json()\<close> rejects a body that is not JSON (a \<open>SyntaxError\<close>) or when the body
  is \<open>null\<close> and cannot be destructured (a \<open>TypeError\<close>); or it binds the three values
  (\<open>Parsed\<close>). A body that is a JSON value other than an object and other than \<open>null\<close>
  has none of the three keys. The messages of the two errors are the engine's.
\<close>

datatype body = Thrown string | Parsed request

text \<open>
  The route handler. Every error thrown inside the \<open>try\<close> block, the one of the first
  statement included, is answered by the \<open>catch\<close> block. With a filter of the shape
  above and a corpus of chunk records, the statements that can throw are the first one,
  \<open>validateInput\<close> and \<open>loadPapers\<close>. A response built by \<open>Response.json(body)\<close> with no
  \<open>status\<close> option has status 200.
\<close>

definition POST :: "similarity \<Rightarrow> server \<Rightarrow> int \<Rightarrow> stored \<Rightarrow> body \<Rightarrow> outcome \<times> server" where
  "POST cs s now file b =
     (case b of
        Thrown message \<Rightarrow> (Responded (errorResponse message), s)
      | Parsed req \<Rightarrow>
     (let queryEmbedding = req_queryEmbedding req;
          topK = topKOrDefault req;
          flt = req_filter req
      in (case validateInput queryEmbedding topK flt of
            Inl message \<Rightarrow> (Responded (errorResponse message), s)
          | Inr ok \<Rightarrow>
              (case loadPapers s now file of
                 (Inl message, s1) \<Rightarrow> (Responded (errorResponse message), s1)
               | (Inr papers, s1) \<Rightarrow>
                   (let filteredPapers = applyFilters papers flt
                    in if length filteredPapers = 0
                       then (Responded
                               \<lparr> error = None,
                                 results = [],
                                 meta = \<lparr> total_chunks = Some (length papers),
                                          filtered_chunks = Some 0,
                                          returned_chunks = None,
                                          filter_applied = Some (flt \<noteq> None),
                                          mmr_diversification = None,
                                          meta_error = None \<rparr>,
                                 status = 200 \<rparr>, s1)
                       else (case numbers (elements queryEmbedding) of
                               None \<Rightarrow> (NonNumericQuery, s1)
                             | Some q \<Rightarrow>
                                 (let diversifiedResults = rank cs q (toNumber topK) filteredPapers;
                                      results = map stripEmbedding diversifiedResults
                                  in (Responded
                                        \<lparr> error = None,
                                          results = results,
                                          meta = \<lparr> total_chunks = Some (length papers),
                                                   filtered_chunks = Some (length filteredPapers),
                                                   returned_chunks = Some (length results),
                                                   filter_applied = Some (flt \<noteq> None),
                                                   mmr_diversification = Some True,
                                                   meta_error = None \<rparr>,
                                          status = 200 \<rparr>, s1))))))))"

subsection \<open>The greedy selection as the specification words it\<close>

text \<open>
  Section 4.4, step 4 of the specification, written down independently of the loops
  above: \<open>max_similarity_to_any_selected\<close> is the maximum pairwise similarity between
  the candidate and every selected item, 0 if nothing is selected;
  \<open>mmr_score = \<lambda> * relevance - (1 - \<lambda>) * max_similarity_to_any_selected\<close>.
\<close>

definition max_similarity_to_any_selected :: "similarity \<Rightarrow> scored \<Rightarrow> scored list \<Rightarrow> real" where
  "max_similarity_to_any_selected cs c selected =
     (if selected = [] then 0
      else Max ((\<lambda>s. cs (embedding c) (embedding s)) ` set selected))"

definition mmr_score :: "similarity \<Rightarrow> real \<Rightarrow> scored list \<Rightarrow> scored \<Rightarrow> real" where
  "mmr_score cs lam selected c =
     lam * score c - (1 - lam) * max_similarity_to_any_selected cs c selected"

text \<open>The same score with the similarity term never taken below 0.\<close>

definition mmr_score_floored :: "similarity \<Rightarrow> real \<Rightarrow> scored list \<Rightarrow> scored \<Rightarrow> real" where
  "mmr_score_floored cs lam selected c =
     lam * score c - (1 - lam) * max 0 (max_similarity_to_any_selected cs c selected)"

text \<open>
  The position of the candidate with the highest value, the first one where several
  share it: the number of candidates in front of the first that reaches the maximum.
\<close>

definition first_highest :: "('a \<Rightarrow> real) \<Rightarrow> 'a list \<Rightarrow> nat" where
  "first_highest f xs = length (takeWhile (\<lambda>x. f x < Max (f ` set xs)) xs)"

text \<open>
  \<open>n\<close> more rounds of: pick the remaining candidate that \<open>first_highest\<close> names for the
  given score and move it from remaining to selected; stop early when no candidate
  remains.
\<close>

fun greedy_select :: "(scored list \<Rightarrow> scored \<Rightarrow> real) \<Rightarrow> nat \<Rightarrow> scored list \<Rightarrow> scored list \<Rightarrow> scored list" where
  "greedy_select sc 0 selected remaining = selected"
| "greedy_select sc (Suc n) selected remaining =
     (if remaining = [] then selected
      else (let i = first_highest (sc selected) remaining
            in greedy_select sc n (selected @ [remaining ! i])
                 (take i remaining @ drop (Suc i) remaining)))"

text \<open>What it means for \<open>b\<close> to be that position.\<close>

definition is_first_highest :: "('a \<Rightarrow> real) \<Rightarrow> 'a list \<Rightarrow> nat \<Rightarrow> bool" where
  "is_first_highest f xs b \<longleftrightarrow>
     b < length xs \<and> (\<forall>j<length xs. f (xs ! j) \<le> f (xs ! b)) \<and> (\<forall>j<b. f (xs ! j) < f (xs ! b))"

subsection \<open>Concrete inputs\<close>

text \<open>
  Vectors of dimension 384 that are zero beyond their first two components, chunks and
  scored candidates that carry one name in every text field. They are the inputs the
  definitions are evaluated at further down.
\<close>

definition vec2 :: "real \<Rightarrow> real \<Rightarrow> real list" where
  "vec2 a b = a # b # replicate 382 0"

definition paper :: "string \<Rightarrow> real list \<Rightarrow> chunk" where
  "paper name e =
     \<lparr> doc_id = name, doc_title = name, year = None, url = None, chunk_id = name,
       chunk_text = name, embedding = e \<rparr>"

definition candidate :: "string \<Rightarrow> real list \<Rightarrow> real \<Rightarrow> scored" where
  "candidate name e x =
     \<lparr> doc_id = name, doc_title = name, year = None, url = None, chunk_id = name,
       chunk_text = name, embedding = e, score = x \<rparr>"

text \<open>
  A query array of 384 numbers, and the state of a server that has not loaded the corpus
  yet.
\<close>

definition queryArray :: "real \<Rightarrow> real \<Rightarrow> js" where
  "queryArray a b = JArr (map JNum (vec2 a b))"

definition coldStart :: server where
  "coldStart = \<lparr> papersCache = None, cacheTimestamp = None, storageReads = 0 \<rparr>"

text \<open>
  A corpus of three chunks without a year; a corpus whose only dated chunk is from 2019;
  a filter that gives both bounds of a year range; the filter object \<open>{}\<close>; the state of
  a server that cached \<open>data\<close> at time \<open>t\<close> and has read storage \<open>n\<close> times.
\<close>

definition threePapers :: "chunk list" where
  "threePapers = [paper ''t'' (vec2 1 0), paper ''a'' (vec2 0 1), paper ''b'' (vec2 (-1) 0)]"

definition oldPapers :: "chunk list" where
  "oldPapers = [(paper ''t'' (vec2 1 0))\<lparr>year := Some 2019\<rparr>, paper ''a'' (vec2 0 1)]"

definition yearsBetween :: "int \<Rightarrow> int \<Rightarrow> filter_spec" where
  "yearsBetween lo hi =
     \<lparr> filter_year = Some \<lparr> year_min = Some lo, year_max = Some hi \<rparr>,
       filter_keywords = None, filter_doc_ids = None \<rparr>"

definition emptyFilter :: filter_spec where
  "emptyFilter = \<lparr> filter_year = None, filter_keywords = None, filter_doc_ids = None \<rparr>"

definition loaded :: "chunk list \<Rightarrow> int \<Rightarrow> nat \<Rightarrow> server" where
  "loaded data t n = \<lparr> papersCache = Some data, cacheTimestamp = Some t, storageReads = n \<rparr>"

section \<open>The loops of mmrDiversification\<close>

lemma is_first_highest_snoc_new:
  assumes "pre = [] \<or> (is_first_highest f pre k \<and> f (pre ! k) < f r)"
  shows "is_first_highest f (pre @ [r]) (length pre)"
  using assms unfolding is_first_highest_def
  by (auto simp: nth_append less_Suc_eq)

lemma is_first_highest_snoc_keep:
  assumes "is_first_highest f pre k" "f r \<le> f (pre ! k)"
  shows "is_first_highest f (pre @ [r]) k"
  using assms unfolding is_first_highest_def
  by (auto simp: nth_append less_Suc_eq)

lemma forLoop_inv:
  assumes "(bs = None \<and> pre = [] \<and> rs \<noteq> []) \<or>
           (bs = Some (mmrScore cs lam selected (pre ! k)) \<and> is_first_highest (mmrScore cs lam selected) pre k)"
  shows "is_first_highest (mmrScore cs lam selected) (pre @ rs)
           (forLoop cs lam selected rs (length pre) k bs)"
  using assms
proof (induction rs arbitrary: pre k bs)
  case Nil
  then show ?case by simp
next
  case (Cons r rs)
  let ?f = "mmrScore cs lam selected"
  show ?case
  proof (cases "exceeds (?f r) bs")
    case True
    have new: "is_first_highest ?f (pre @ [r]) (length pre)"
    proof (rule is_first_highest_snoc_new)
      from Cons.prems True show "pre = [] \<or> (is_first_highest ?f pre k \<and> ?f (pre ! k) < ?f r)"
        by auto
    qed
    have "is_first_highest ?f ((pre @ [r]) @ rs)
            (forLoop cs lam selected rs (length (pre @ [r])) (length pre) (Some (?f r)))"
      by (rule Cons.IH) (use new in simp)
    with True show ?thesis by simp
  next
    case False
    then obtain b where bs: "bs = Some b" and le: "?f r \<le> b" by (cases bs) auto
    with Cons.prems have k: "is_first_highest ?f pre k" and b: "b = ?f (pre ! k)" by auto
    have keep: "is_first_highest ?f (pre @ [r]) k"
      using k le b by (intro is_first_highest_snoc_keep) auto
    from k have "k < length pre" by (simp add: is_first_highest_def)
    then have "(pre @ [r]) ! k = pre ! k" by (simp add: nth_append)
    with keep bs b
    have "is_first_highest ?f ((pre @ [r]) @ rs)
            (forLoop cs lam selected rs (length (pre @ [r])) k bs)"
      by (intro Cons.IH) simp
    with False show ?thesis by simp
  qed
qed

lemma bestIndex_is_first_highest:
  "remaining \<noteq> [] \<Longrightarrow>
   is_first_highest (mmrScore cs lam selected) remaining (bestIndex cs lam selected remaining)"
  unfolding bestIndex_def using forLoop_inv [of None "[]" remaining cs lam selected 0] by simp

lemma is_first_highest_unique:
  assumes "is_first_highest f xs b"
  shows "first_highest f xs = b"
proof -
  from assms have b: "b < length xs" and all: "\<forall>j<length xs. f (xs ! j) \<le> f (xs ! b)"
    and before: "\<forall>j<b. f (xs ! j) < f (xs ! b)"
    by (auto simp: is_first_highest_def)
  have "Max (f ` set xs) = f (xs ! b)"
  proof (rule Max_eqI)
    show "finite (f ` set xs)" by simp
    show "f (xs ! b) \<in> f ` set xs" using b by simp
    fix y assume "y \<in> f ` set xs"
    then obtain j where "j < length xs" "y = f (xs ! j)" by (auto simp: in_set_conv_nth)
    with all show "y \<le> f (xs ! b)" by simp
  qed
  then have "takeWhile (\<lambda>x. f x < Max (f ` set xs)) xs = take b xs"
    using b before by (intro takeWhile_eq_take_P_nth) auto
  then show ?thesis using b by (simp add: first_highest_def)
qed

lemma maxSimilarity_floor:
  "maxSimilarity cs c selected = max 0 (max_similarity_to_any_selected cs c selected)"
proof -
  have gen: "fold (\<lambda>selectedItem m. max m (cs (embedding c) (embedding selectedItem))) sel m0
             = Max (insert m0 ((\<lambda>s. cs (embedding c) (embedding s)) ` set sel))" for sel :: "scored list" and m0
  proof (induction sel arbitrary: m0)
    case Nil
    then show ?case by simp
  next
    case (Cons a sel)
    have "Max (insert (max m0 (cs (embedding c) (embedding a))) ((\<lambda>s. cs (embedding c) (embedding s)) ` set sel))
          = Max (insert m0 (insert (cs (embedding c) (embedding a)) ((\<lambda>s. cs (embedding c) (embedding s)) ` set sel)))"
      by (cases "sel = []") (auto simp: max.assoc)
    with Cons show ?case by simp
  qed
  show ?thesis
    by (cases "selected = []") (simp_all add: maxSimilarity_def gen max_similarity_to_any_selected_def)
qed

lemma mmrScore_floored: "mmrScore cs lam selected = mmr_score_floored cs lam selected"
  by (rule ext) (simp add: mmrScore_def mmr_score_floored_def maxSimilarity_floor)

lemma bestIndex_first_highest:
  "remaining \<noteq> [] \<Longrightarrow>
   bestIndex cs lam selected remaining = first_highest (mmr_score_floored cs lam selected) remaining"
  using bestIndex_is_first_highest [of remaining cs lam selected]
  by (simp add: is_first_highest_unique mmrScore_floored)

lemma less_bound_iff: "real n < K \<longleftrightarrow> n < nat \<lceil>K\<rceil>"
  by (simp add: less_ceiling_iff zless_nat_eq_int_zless)

lemma whileLoop_greedy:
  "whileLoop cs lam K selected remaining
   = greedy_select (mmr_score_floored cs lam) (nat \<lceil>K\<rceil> - length selected) selected remaining"
proof (induction "nat \<lceil>K\<rceil> - length selected" arbitrary: selected remaining)
  case 0
  then have "\<not> length selected < nat \<lceil>K\<rceil>" by arith
  then have "\<not> real (length selected) < K"
    unfolding less_bound_iff .
  with 0 show ?case by (subst whileLoop.simps) simp
next
  case (Suc n)
  then have "length selected < nat \<lceil>K\<rceil>" by arith
  then have lt: "real (length selected) < K"
    unfolding less_bound_iff .
  show ?case
  proof (cases "remaining = []")
    case True
    with Suc(2)[symmetric] show ?thesis by (subst whileLoop.simps) simp
  next
    case False
    let ?b = "bestIndex cs lam selected remaining"
    have n: "n = nat \<lceil>K\<rceil> - length (selected @ [remaining ! ?b])" using Suc(2) by simp
    have "whileLoop cs lam K selected remaining
          = whileLoop cs lam K (selected @ [remaining ! ?b]) (splice1 ?b remaining)"
      using lt False by (subst whileLoop.simps) (simp add: Let_def)
    also have "\<dots> = greedy_select (mmr_score_floored cs lam) n (selected @ [remaining ! ?b]) (splice1 ?b remaining)"
      using Suc(1)[OF n] n by simp
    finally show ?thesis
      using False Suc(2)[symmetric] by (simp add: Let_def bestIndex_first_highest splice1_def)
  qed
qed

lemma takeWhile_stops: "\<exists>y\<in>set ys. \<not> Q y \<Longrightarrow> length (takeWhile Q ys) < length ys"
  by (induction ys) auto

lemma first_highest_correct:
  assumes "xs \<noteq> []"
  shows "is_first_highest f xs (first_highest f xs)"
proof -
  define M where "M = Max (f ` set xs)"
  define P where "P = (\<lambda>x. f x < M)"
  define b where "b = length (takeWhile P xs)"
  have fin: "finite (f ` set xs)" and ne: "f ` set xs \<noteq> {}" using assms by auto
  have le: "f x \<le> M" if "x \<in> set xs" for x
    unfolding M_def using that fin by (intro Max_ge) auto
  from Max_in [OF fin ne] obtain x where x: "x \<in> set xs" "f x = M"
    unfolding M_def by auto
  then have "\<not> P x" by (simp add: P_def)
  with x have "\<exists>x\<in>set xs. \<not> P x" by blast
  then have b: "b < length xs" unfolding b_def by (rule takeWhile_stops)
  then have "\<not> P (xs ! b)" unfolding b_def by (rule nth_length_takeWhile)
  moreover have "f (xs ! b) \<le> M" using b by (intro le) simp
  ultimately have top: "f (xs ! b) = M" by (simp add: P_def)
  have below: "f (xs ! j) < M" if "j < b" for j
  proof -
    from that have "takeWhile P xs ! j \<in> set (takeWhile P xs)"
      unfolding b_def by simp
    then have "P (takeWhile P xs ! j)" by (rule set_takeWhileD [THEN conjunct2])
    moreover have "takeWhile P xs ! j = xs ! j"
      using that unfolding b_def by (rule takeWhile_nth)
    ultimately show ?thesis by (simp add: P_def)
  qed
  have "is_first_highest f xs b"
    unfolding is_first_highest_def
  proof (intro conjI allI impI)
    show "b < length xs" by (rule b)
    show "f (xs ! j) \<le> f (xs ! b)" if "j < length xs" for j
      using that le [of "xs ! j"] top by simp
    show "f (xs ! j) < f (xs ! b)" if "j < b" for j
      using below [OF that] top by simp
  qed
  moreover have "first_highest f xs = b"
    by (simp add: first_highest_def b_def P_def M_def)
  ultimately show ?thesis by simp
qed

lemma greedy_select_hd:
  "selected \<noteq> [] \<Longrightarrow> hd (greedy_select sc n selected remaining) = hd selected"
  by (induction n arbitrary: selected remaining) (simp_all add: Let_def)

lemma greedy_select_length:
  "length (greedy_select sc n selected remaining) = length selected + min n (length remaining)"
proof (induction n arbitrary: selected remaining)
  case 0
  then show ?case by simp
next
  case (Suc n)
  show ?case
  proof (cases "remaining = []")
    case True
    then show ?thesis by simp
  next
    case False
    let ?i = "first_highest (sc selected) remaining"
    let ?rest = "take ?i remaining @ drop (Suc ?i) remaining"
    from first_highest_correct [OF False, of "sc selected"] have i: "?i < length remaining"
      by (simp add: is_first_highest_def)
    then have rest: "length ?rest = length remaining - 1"
      by simp
    have "greedy_select sc (Suc n) selected remaining
          = greedy_select sc n (selected @ [remaining ! ?i]) ?rest"
      using False by (simp add: Let_def)
    then have "length (greedy_select sc (Suc n) selected remaining)
               = length (selected @ [remaining ! ?i]) + min n (length ?rest)"
      by (simp only: Suc.IH)
    also have "\<dots> = length selected + 1 + min n (length remaining - 1)"
      by (subst rest) simp
    also have "\<dots> = length selected + min (Suc n) (length remaining)"
      using i by (cases "length remaining") simp_all
    finally show ?thesis .
  qed
qed

lemma sortByScore_sorted: "sorted_wrt (\<lambda>a b. score a \<ge> score b) (sortByScore xs)"
proof -
  have "sorted (map (\<lambda>c. - score c) (sortByScore xs))"
    unfolding sortByScore_def by (rule sorted_sort_key)
  then show ?thesis by (simp add: sorted_map sorted_wrt_iff_nth_less)
qed

lemma sortByScore_set: "set (sortByScore xs) = set xs"
  by (simp add: sortByScore_def)

lemma sortByScore_hd:
  assumes "c \<in> set xs"
  shows "score c \<le> score (hd (sortByScore xs))"
proof -
  from assms have c: "c \<in> set (sortByScore xs)" by (simp add: sortByScore_set)
  then obtain y ys where ys: "sortByScore xs = y # ys" by (cases "sortByScore xs") auto
  with sortByScore_sorted [of xs] c show ?thesis by auto
qed

lemma mmrDiversification_greedy:
  assumes "0 \<le> K" and "K < real (length res)"
  shows "mmrDiversification cs res q lam K
         = greedy_select (mmr_score_floored cs lam) (nat \<lceil>K\<rceil> - 1) [hd res] (tl res)"
proof -
  from assms obtain r rest where r: "res = r # rest" by (cases res) auto
  with assms show ?thesis
    by (simp add: mmrDiversification_def whileLoop_greedy)
qed

section \<open>Evaluating the similarity\<close>

lemma dot_Nil [simp]: "dot [] ys = 0" and dot_Nil2 [simp]: "dot xs [] = 0"
  by (simp_all add: dot_def)

lemma dot_Cons [simp]: "dot (x # xs) (y # ys) = x * y + dot xs ys"
  by (simp add: dot_def)

lemma dot_zeros [simp]: "dot (replicate n 0) ys = 0"
  by (induction n arbitrary: ys) (simp, case_tac ys, simp_all)

lemma cosineSimilarity_vec2:
  "cosineSimilarity (vec2 a b) (vec2 c d) =
     (if sqrt (a * a + b * b) = 0 \<or> sqrt (c * c + d * d) = 0 then 0
      else (a * c + b * d) / (sqrt (a * a + b * b) * sqrt (c * c + d * d)))"
  by (simp add: cosineSimilarity_def norm2_def vec2_def)

lemma candidate_sel [simp]:
  "score (candidate n e x) = x" "embedding (candidate n e x) = e"
  by (simp_all add: candidate_def)

lemma computeSimilarities_paper:
  "computeSimilarities cs q (paper n e # ps) = candidate n e (cs q e) # computeSimilarities cs q ps"
  "computeSimilarities cs q [] = []"
  by (simp_all add: computeSimilarities_def paper_def candidate_def)

text \<open>
  Three chunks and a query of dimension 384: \<open>t\<close> points along the first axis, \<open>a\<close>
  along the second, \<open>b\<close> against the first; the query is \<open>(4/5, 3/5, 0, ...)\<close>. Their
  scores are 4/5, 3/5 and -4/5, so they are already in sorted order. With \<open>t\<close> selected,
  \<open>a\<close> has similarity 0 to it and \<open>b\<close> has similarity -1.
\<close>

lemma scored3:
  "computeSimilarities cosineSimilarity (vec2 (4/5) (3/5))
     [paper ''t'' (vec2 1 0), paper ''a'' (vec2 0 1), paper ''b'' (vec2 (-1) 0)]
   = [candidate ''t'' (vec2 1 0) (4/5), candidate ''a'' (vec2 0 1) (3/5),
      candidate ''b'' (vec2 (-1) 0) (- (4/5))]"
  by (simp add: computeSimilarities_paper cosineSimilarity_vec2)

lemma sorted3:
  "sortByScore [candidate ''t'' (vec2 1 0) (4/5), candidate ''a'' (vec2 0 1) (3/5),
      candidate ''b'' (vec2 (-1) 0) (- (4/5))]
   = [candidate ''t'' (vec2 1 0) (4/5), candidate ''a'' (vec2 0 1) (3/5),
      candidate ''b'' (vec2 (-1) 0) (- (4/5))]"
  by (simp add: sortByScore_def)

lemma floored_a:
  "mmr_score_floored cosineSimilarity (3/10) [candidate ''t'' (vec2 1 0) (4/5)]
     (candidate ''a'' (vec2 0 1) (3/5)) = 9/50"
  by (simp add: mmr_score_floored_def max_similarity_to_any_selected_def cosineSimilarity_vec2)

lemma floored_b:
  "mmr_score_floored cosineSimilarity (3/10) [candidate ''t'' (vec2 1 0) (4/5)]
     (candidate ''b'' (vec2 (-1) 0) (- (4/5))) = - (6/25)"
  by (simp add: mmr_score_floored_def max_similarity_to_any_selected_def cosineSimilarity_vec2)

lemma claimed_a:
  "mmr_score cosineSimilarity (3/10) [candidate ''t'' (vec2 1 0) (4/5)]
     (candidate ''a'' (vec2 0 1) (3/5)) = 9/50"
  by (simp add: mmr_score_def max_similarity_to_any_selected_def cosineSimilarity_vec2)

lemma claimed_b:
  "mmr_score cosineSimilarity (3/10) [candidate ''t'' (vec2 1 0) (4/5)]
     (candidate ''b'' (vec2 (-1) 0) (- (4/5))) = 23/50"
  by (simp add: mmr_score_def max_similarity_to_any_selected_def cosineSimilarity_vec2)

lemma first3:
  "first_highest (mmr_score_floored cosineSimilarity (3/10) [candidate ''t'' (vec2 1 0) (4/5)])
     [candidate ''a'' (vec2 0 1) (3/5), candidate ''b'' (vec2 (-1) 0) (- (4/5))] = 0"
  by (simp add: first_highest_def floored_a floored_b)

lemma pick3:
  "greedy_select (mmr_score_floored cosineSimilarity (3/10)) (Suc 0)
     [candidate ''t'' (vec2 1 0) (4/5)]
     [candidate ''a'' (vec2 0 1) (3/5), candidate ''b'' (vec2 (-1) 0) (- (4/5))]
   = [candidate ''t'' (vec2 1 0) (4/5), candidate ''a'' (vec2 0 1) (3/5)]"
  by (simp add: first3 Let_def)

lemma mmr3:
  "mmrDiversification cosineSimilarity
     [candidate ''t'' (vec2 1 0) (4/5), candidate ''a'' (vec2 0 1) (3/5),
      candidate ''b'' (vec2 (-1) 0) (- (4/5))] (vec2 (4/5) (3/5)) (3/10) 2
   = [candidate ''t'' (vec2 1 0) (4/5), candidate ''a'' (vec2 0 1) (3/5)]"
  by (simp add: mmrDiversification_def whileLoop_greedy first3 Let_def)

section \<open>Length of the selection\<close>

lemma computeSimilarities_length [simp]:
  "length (computeSimilarities cs q ps) = length ps"
  by (simp add: computeSimilarities_def)

lemma sortByScore_length [simp]: "length (sortByScore xs) = length xs"
  by (simp add: sortByScore_def)

lemma sortByScore_mset: "mset (sortByScore xs) = mset xs"
  by (simp add: sortByScore_def)

lemma mmrDiversification_length:
  assumes "1 \<le> k"
  shows "length (mmrDiversification cs res q lam (real k)) = min k (length res)"
proof (cases "length res \<le> k")
  case True
  then show ?thesis by (simp add: mmrDiversification_def)
next
  case False
  then have big: "real k < real (length res)" by simp
  then have ne: "res \<noteq> []" by auto
  have "mmrDiversification cs res q lam (real k)
        = greedy_select (mmr_score_floored cs lam) (nat \<lceil>real k\<rceil> - 1) [hd res] (tl res)"
    using big by (intro mmrDiversification_greedy) simp_all
  then have "length (mmrDiversification cs res q lam (real k))
             = 1 + min (k - 1) (length res - 1)"
    by (simp add: greedy_select_length)
  with False assms show ?thesis by simp
qed

section \<open>Filtering and the cache\<close>

lemma docIdStep_subset: "set (docIdStep d xs) \<subseteq> set xs"
  by (auto simp: docIdStep_def split: option.splits)

lemma keywordStep_subset: "set (keywordStep k xs) \<subseteq> set xs"
  by (auto simp: keywordStep_def Let_def split: option.splits)

lemma yearStep_bounded:
  assumes "year_min yf \<noteq> None \<or> year_max yf \<noteq> None" and "p \<in> set (yearStep (Some yf) xs)"
  shows "year p \<noteq> None"
  using assms
  by (auto simp: yearStep_def Let_def year_at_least_def year_at_most_def split: option.splits)

lemma applyFilters_yearStep:
  "set (applyFilters papers (Some f)) \<subseteq> set (yearStep (filter_year f) papers)"
proof -
  have "set (applyFilters papers (Some f))
        \<subseteq> set (keywordStep (filter_keywords f) (yearStep (filter_year f) papers))"
    by (simp add: applyFilters_def docIdStep_subset)
  also have "\<dots> \<subseteq> set (yearStep (filter_year f) papers)"
    by (rule keywordStep_subset)
  finally show ?thesis .
qed

lemma freshCache_Some:
  "papersCache s = Some cached \<Longrightarrow> cacheTimestamp s = Some t \<Longrightarrow> t \<noteq> 0
   \<Longrightarrow> now - t < 5 * 60 * 1000 \<Longrightarrow> freshCache s now = Some cached"
  by (simp add: freshCache_def CACHE_DURATION_def)

section \<open>The paths through POST\<close>

lemma validateInput_Invalid:
  "validateInput qe tk flt = Inl message \<Longrightarrow> str_includes message ''Invalid''"
  by (auto simp: validateInput_def str_includes_def sublist_code split: if_splits option.splits)

lemma load_message: "\<not> str_includes ''Failed to load papers data'' ''Invalid''"
  by (simp add: str_includes_def sublist_code)

lemma loadPapers_message:
  "loadPapers s now file = (Inl message, s1) \<Longrightarrow> message = ''Failed to load papers data''"
  by (auto simp: loadPapers_def Let_def split: option.splits stored.splits)

lemma POST_thrown:
  "POST cs s now file (Thrown message) = (Responded (errorResponse message), s)"
  by (simp add: POST_def)

lemma POST_invalid:
  "validateInput (req_queryEmbedding req) (topKOrDefault req) (req_filter req) = Inl message
   \<Longrightarrow> POST cs s now file (Parsed req) = (Responded (errorResponse message), s)"
  by (simp add: POST_def)

lemma POST_load_failed:
  "validateInput (req_queryEmbedding req) (topKOrDefault req) (req_filter req) = Inr ok
   \<Longrightarrow> loadPapers s now file = (Inl message, s1)
   \<Longrightarrow> POST cs s now file (Parsed req) = (Responded (errorResponse message), s1)"
  by (simp add: POST_def)

lemma POST_empty:
  "validateInput (req_queryEmbedding req) (topKOrDefault req) (req_filter req) = Inr ok
   \<Longrightarrow> loadPapers s now file = (Inr papers, s1)
   \<Longrightarrow> applyFilters papers (req_filter req) = []
   \<Longrightarrow> POST cs s now file (Parsed req) =
         (Responded
            \<lparr> error = None, results = [],
              meta = \<lparr> total_chunks = Some (length papers), filtered_chunks = Some 0,
                       returned_chunks = None, filter_applied = Some (req_filter req \<noteq> None),
                       mmr_diversification = None, meta_error = None \<rparr>,
              status = 200 \<rparr>, s1)"
  by (simp add: POST_def)

lemma POST_non_numeric:
  "validateInput (req_queryEmbedding req) (topKOrDefault req) (req_filter req) = Inr ok
   \<Longrightarrow> loadPapers s now file = (Inr papers, s1)
   \<Longrightarrow> applyFilters papers (req_filter req) \<noteq> []
   \<Longrightarrow> numbers (elements (req_queryEmbedding req)) = None
   \<Longrightarrow> POST cs s now file (Parsed req) = (NonNumericQuery, s1)"
  by (simp add: POST_def)

lemma POST_ranked:
  "validateInput (req_queryEmbedding req) (topKOrDefault req) (req_filter req) = Inr ok
   \<Longrightarrow> loadPapers s now file = (Inr papers, s1)
   \<Longrightarrow> applyFilters papers (req_filter req) \<noteq> []
   \<Longrightarrow> numbers (elements (req_queryEmbedding req)) = Some q
   \<Longrightarrow> POST cs s now file (Parsed req) =
         (Responded
            \<lparr> error = None,
              results = map stripEmbedding
                          (rank cs q (toNumber (topKOrDefault req))
                             (applyFilters papers (req_filter req))),
              meta = \<lparr> total_chunks = Some (length papers),
                       filtered_chunks = Some (length (applyFilters papers (req_filter req))),
                       returned_chunks =
                         Some (length (rank cs q (toNumber (topKOrDefault req))
                                         (applyFilters papers (req_filter req)))),
                       filter_applied = Some (req_filter req \<noteq> None),
                       mmr_diversification = Some True, meta_error = None \<rparr>,
              status = 200 \<rparr>, s1)"
  by (simp add: POST_def Let_def)

lemma errorResponse_sel [simp]:
  "error (errorResponse m) \<noteq> None"
  "results (errorResponse m) = []"
  "status (errorResponse m) = (if str_includes m ''Invalid'' then 400 else 500)"
  "meta_error (meta (errorResponse m)) = Some True"
  "filter_applied (meta (errorResponse m)) = None"
  by (simp_all add: errorResponse_def)

lemma POST_cases [case_names invalid load_failed empty non_numeric ranked]:
  obtains
    message where
      "validateInput (req_queryEmbedding req) (topKOrDefault req) (req_filter req) = Inl message"
      "POST cs s now file (Parsed req) = (Responded (errorResponse message), s)"
  | s1 where
      "validateInput (req_queryEmbedding req) (topKOrDefault req) (req_filter req) = Inr ()"
      "loadPapers s now file = (Inl ''Failed to load papers data'', s1)"
      "POST cs s now file (Parsed req) = (Responded (errorResponse ''Failed to load papers data''), s1)"
  | papers s1 where
      "validateInput (req_queryEmbedding req) (topKOrDefault req) (req_filter req) = Inr ()"
      "loadPapers s now file = (Inr papers, s1)"
      "applyFilters papers (req_filter req) = []"
      "POST cs s now file (Parsed req) =
         (Responded
            \<lparr> error = None, results = [],
              meta = \<lparr> total_chunks = Some (length papers), filtered_chunks = Some 0,
                       returned_chunks = None, filter_applied = Some (req_filter req \<noteq> None),
                       mmr_diversification = None, meta_error = None \<rparr>,
              status = 200 \<rparr>, s1)"
  | papers s1 where
      "validateInput (req_queryEmbedding req) (topKOrDefault req) (req_filter req) = Inr ()"
      "loadPapers s now file = (Inr papers, s1)"
      "applyFilters papers (req_filter req) \<noteq> []"
      "POST cs s now file (Parsed req) = (NonNumericQuery, s1)"
  | papers s1 q where
      "validateInput (req_queryEmbedding req) (topKOrDefault req) (req_filter req) = Inr ()"
      "loadPapers s now file = (Inr papers, s1)"
      "applyFilters papers (req_filter req) \<noteq> []"
      "numbers (elements (req_queryEmbedding req)) = Some q"
      "POST cs s now file (Parsed req) =
         (Responded
            \<lparr> error = None,
              results = map stripEmbedding
                          (rank cs q (toNumber (topKOrDefault req))
                             (applyFilters papers (req_filter req))),
              meta = \<lparr> total_chunks = Some (length papers),
                       filtered_chunks = Some (length (applyFilters papers (req_filter req))),
                       returned_chunks =
                         Some (length (rank cs q (toNumber (topKOrDefault req))
                                         (applyFilters papers (req_filter req)))),
                       filter_applied = Some (req_filter req \<noteq> None),
                       mmr_diversification = Some True, meta_error = None \<rparr>,
              status = 200 \<rparr>, s1)"
proof (cases "validateInput (req_queryEmbedding req) (topKOrDefault req) (req_filter req)")
  case (Inl message)
  then show ?thesis using that(1) POST_invalid by blast
next
  case (Inr ok)
  then have v: "validateInput (req_queryEmbedding req) (topKOrDefault req) (req_filter req) = Inr ()"
    by simp
  obtain l s1 where l: "loadPapers s now file = (l, s1)" by (cases "loadPapers s now file")
  show ?thesis
  proof (cases l)
    case (Inl message)
    with l loadPapers_message have "loadPapers s now file = (Inl ''Failed to load papers data'', s1)"
      by blast
    with v show ?thesis using that(2) POST_load_failed by blast
  next
    case (Inr papers)
    with l have lp: "loadPapers s now file = (Inr papers, s1)" by simp
    show ?thesis
    proof (cases "applyFilters papers (req_filter req) = []")
      case True
      with v lp show ?thesis using that(3) POST_empty by blast
    next
      case False
      show ?thesis
      proof (cases "numbers (elements (req_queryEmbedding req))")
        case None
        with v lp False show ?thesis using that(4) POST_non_numeric by blast
      next
        case (Some q)
        with v lp False show ?thesis using that(5) POST_ranked by blast
      qed
    qed
  qed
qed

section \<open>Validation and result objects\<close>

lemma vec2_length [simp]: "length (vec2 a b) = 384"
  by (simp add: vec2_def)

lemma numbers_map_JNum [simp]: "numbers (map JNum xs) = Some xs"
  by (induction xs) simp_all

lemma queryArray_simps [simp]:
  "truthy (queryArray a b)" "isArray (queryArray a b)" "arrayLength (queryArray a b) = 384"
  "numbers (elements (queryArray a b)) = Some (vec2 a b)"
  by (simp_all add: queryArray_def)

lemma validateInput_queryArray:
  "validateInput (queryArray a b) tk flt =
     (if truthy tk \<and> (notNumber tk \<or> toNumber tk < 1 \<or> toNumber tk > 10)
      then Inl ''Invalid topK: must be a number between 1 and 10''
      else (case flt of
              None \<Rightarrow> Inr ()
            | Some f \<Rightarrow>
                if yearOutOfRange (filter_year f)
                then Inl ''Invalid year range: must be between 1950 and 2030''
                else Inr ()))"
  by (simp add: validateInput_def)

lemma loadPapers_cold:
  "loadPapers coldStart now (Papers data) =
     (Inr data, \<lparr> papersCache = Some data, cacheTimestamp = Some now, storageReads = 1 \<rparr>)"
  by (simp add: loadPapers_def freshCache_def coldStart_def)

lemma validateInput_embedding:
  assumes "\<not> (\<exists>xs. qe = JArr xs \<and> length xs = 384)"
  shows "\<exists>message. validateInput qe tk flt = Inl message"
  using assms by (cases qe) (auto simp: validateInput_def)

lemma validateInput_topK:
  assumes "validateInput qe v flt = Inr ()" and "truthy v"
  shows "\<exists>x. v = JNum x \<and> 1 \<le> x \<and> x \<le> 10"
  using assms by (cases v) (auto simp: validateInput_def split: if_splits)

lemma stripEmbedding_eq:
  "stripEmbedding c =
     [ (''doc_id'', JStr (doc_id c)),
       (''doc_title'', JStr (doc_title c)),
       (''year'', (case year c of None \<Rightarrow> JUndefined | Some y \<Rightarrow> JNum (of_int y))),
       (''url'', (case url c of None \<Rightarrow> JUndefined | Some u \<Rightarrow> JStr u)),
       (''chunk_id'', JStr (chunk_id c)),
       (''text'', JStr (chunk_text c)),
       (''score'', JNum (score c)) ]"
  by (simp add: stripEmbedding_def omit_def properties_def)

lemma map_of_omit: "map_of (omit k ob) k' = (if k' = k then None else map_of ob k')"
  by (induction ob) (auto simp: omit_def)

section \<open>The endpoint at concrete requests\<close>

lemma loadPapers_coldStart:
  "loadPapers coldStart now (Papers data) = (Inr data, loaded data now 1)"
  by (simp add: loadPapers_cold loaded_def)

lemma first_highest_single [simp]: "first_highest f [x] = 0"
  by (simp add: first_highest_def)

lemma rank3_two:
  "rank cosineSimilarity (vec2 (4/5) (3/5)) 2 threePapers
   = [candidate ''t'' (vec2 1 0) (4/5), candidate ''a'' (vec2 0 1) (3/5)]"
  by (simp add: threePapers_def rank_def scored3 sorted3 mmr3)

lemma rank3_five:
  "rank cosineSimilarity (vec2 (4/5) (3/5)) 5 threePapers
   = [candidate ''t'' (vec2 1 0) (4/5), candidate ''a'' (vec2 0 1) (3/5),
      candidate ''b'' (vec2 (-1) 0) (- (4/5))]"
  by (simp add: threePapers_def rank_def scored3 sorted3 mmrDiversification_def)

lemma rank3_fraction:
  "rank cosineSimilarity (vec2 (4/5) (3/5)) (5/2) threePapers
   = [candidate ''t'' (vec2 1 0) (4/5), candidate ''a'' (vec2 0 1) (3/5),
      candidate ''b'' (vec2 (-1) 0) (- (4/5))]"
  by (simp add: threePapers_def rank_def scored3 sorted3 mmrDiversification_def
        whileLoop_greedy numeral_2_eq_2 first3 Let_def)

lemma rank3_zero:
  "rank cosineSimilarity (vec2 (4/5) (3/5)) 0 threePapers = [candidate ''t'' (vec2 1 0) (4/5)]"
  by (simp add: threePapers_def rank_def scored3 sorted3 mmrDiversification_def whileLoop_greedy)

lemma applyFilters_None [simp]: "applyFilters papers None = papers"
  by (simp add: applyFilters_def)

lemma applyFilters_emptyFilter [simp]: "applyFilters papers (Some emptyFilter) = papers"
  by (simp add: applyFilters_def emptyFilter_def yearStep_def keywordStep_def docIdStep_def)

lemma applyFilters_oldPapers: "applyFilters oldPapers (Some (yearsBetween 2020 2021)) = []"
  by (simp add: applyFilters_def yearsBetween_def oldPapers_def paper_def yearStep_def
        keywordStep_def docIdStep_def year_at_least_def year_at_most_def)

lemma threePapers_nonempty [simp]: "threePapers \<noteq> []" "length threePapers = 3"
  by (simp_all add: threePapers_def)

lemma POST_three:
  assumes "tk = JUndefined \<or> tk = JNum x \<and> (x = 0 \<or> 1 \<le> x \<and> x \<le> 10)"
    and "flt = None \<or> flt = Some emptyFilter"
  shows "POST cosineSimilarity coldStart 1000 (Papers threePapers)
           (Parsed \<lparr> req_queryEmbedding = queryArray (4/5) (3/5), req_topK = tk, req_filter = flt \<rparr>)
         = (Responded
              \<lparr> error = None,
                results = map stripEmbedding
                            (rank cosineSimilarity (vec2 (4/5) (3/5))
                               (if tk = JUndefined then 5 else toNumber tk) threePapers),
                meta = \<lparr> total_chunks = Some 3, filtered_chunks = Some 3,
                         returned_chunks =
                           Some (length (rank cosineSimilarity (vec2 (4/5) (3/5))
                                           (if tk = JUndefined then 5 else toNumber tk) threePapers)),
                         filter_applied = Some (flt \<noteq> None),
                         mmr_diversification = Some True, meta_error = None \<rparr>,
                status = 200 \<rparr>, loaded threePapers 1000 1)"
proof -
  let ?req = "\<lparr> req_queryEmbedding = queryArray (4/5) (3/5), req_topK = tk, req_filter = flt \<rparr>"
  have v: "validateInput (req_queryEmbedding ?req) (topKOrDefault ?req) (req_filter ?req) = Inr ()"
    using assms
    by (auto simp: validateInput_queryArray topKOrDefault_def emptyFilter_def yearOutOfRange_def)
  have l: "loadPapers coldStart 1000 (Papers threePapers) = (Inr threePapers, loaded threePapers 1000 1)"
    by (rule loadPapers_coldStart)
  have f: "applyFilters threePapers (req_filter ?req) \<noteq> []"
    using assms(2) by auto
  have n: "numbers (elements (req_queryEmbedding ?req)) = Some (vec2 (4/5) (3/5))"
    by simp
  have k: "toNumber (topKOrDefault ?req) = (if tk = JUndefined then 5 else toNumber tk)"
    by (simp add: topKOrDefault_def)
  have a: "applyFilters threePapers (req_filter ?req) = threePapers"
    using assms(2) by auto
  from POST_ranked [OF v l f n, of cosineSimilarity] show ?thesis
    unfolding k a by simp
qed

lemma POST_old:
  assumes "qe = queryArray (4/5) (3/5) \<or> qe = JArr (replicate 384 (JStr ''x''))"
  shows "POST cosineSimilarity coldStart 1000 (Papers oldPapers)
           (Parsed \<lparr> req_queryEmbedding = qe, req_topK = JUndefined,
             req_filter = Some (yearsBetween 2020 2021) \<rparr>)
         = (Responded
              \<lparr> error = None, results = [],
                meta = \<lparr> total_chunks = Some 2, filtered_chunks = Some 0,
                         returned_chunks = None, filter_applied = Some True,
                         mmr_diversification = None, meta_error = None \<rparr>,
                status = 200 \<rparr>, loaded oldPapers 1000 1)"
proof -
  let ?req = "\<lparr> req_queryEmbedding = qe, req_topK = JUndefined,
                req_filter = Some (yearsBetween 2020 2021) \<rparr>"
  have v: "validateInput (req_queryEmbedding ?req) (topKOrDefault ?req) (req_filter ?req) = Inr ()"
    using assms
    by (auto simp: validateInput_queryArray validateInput_def topKOrDefault_def yearsBetween_def
          yearOutOfRange_def)
  have l: "loadPapers coldStart 1000 (Papers oldPapers) = (Inr oldPapers, loaded oldPapers 1000 1)"
    by (rule loadPapers_coldStart)
  have f: "applyFilters oldPapers (req_filter ?req) = []"
    by (simp add: applyFilters_oldPapers)
  from POST_empty [OF v l f, of cosineSimilarity] show ?thesis
    by (simp add: oldPapers_def)
qed

lemma decimal_300: "decimal 300 = ''300''"
  by code_simp

lemma dimension_300_message:
  "validateInput (JArr (replicate 300 (JNum 0))) (JNum 5) None
   = Inl ''Invalid embedding dimension: expected 384, got 300''"
  by (simp add: validateInput_def decimal_300)

section \<open>Claims\<close>

subsection \<open>C1: the greedy selection\<close>

text \<open>
  What the loops compute. For every candidate list longer than the bound \<open>K\<close>
  (\<open>K \<ge> 0\<close>) and every weight \<open>lam\<close>, \<open>mmrDiversification\<close> starts with the first
  candidate of its input alone, and each of the following rounds (until \<open>K\<close> are
  selected) moves the first remaining candidate with the highest value of
  \<open>lam * score - (1 - lam) * max 0 max_similarity_to_any_selected\<close> to the selected
  ones: the similarity term is never below 0, because \<open>maxSimilarity\<close> starts at 0. The
  first element of the output is the first element of the input, the top-scored
  candidate when the input is sorted by score.
\<close>

lemma mmr_greedy_selection:
  assumes "0 \<le> K" and "K < real (length res)"
  shows "mmrDiversification cs res q lam K
           = greedy_select (mmr_score_floored cs lam) (nat \<lceil>K\<rceil> - 1) [hd res] (tl res)
         \<and> hd (mmrDiversification cs res q lam K) = hd res
         \<and> (\<forall>candidates. res = sortByScore candidates \<longrightarrow>
              (\<forall>c \<in> set candidates. score c \<le> score (hd (mmrDiversification cs res q lam K))))
         \<and> (\<forall>selected remaining. remaining \<noteq> [] \<longrightarrow>
              is_first_highest (mmr_score_floored cs lam selected) remaining
                (bestIndex cs lam selected remaining))"
proof -
  have g: "mmrDiversification cs res q lam K
           = greedy_select (mmr_score_floored cs lam) (nat \<lceil>K\<rceil> - 1) [hd res] (tl res)"
    using assms by (rule mmrDiversification_greedy)
  then have h: "hd (mmrDiversification cs res q lam K) = hd res"
    by (simp add: greedy_select_hd)
  have b: "is_first_highest (mmr_score_floored cs lam selected) remaining
             (bestIndex cs lam selected remaining)"
    if "remaining \<noteq> []" for selected remaining
    using bestIndex_is_first_highest [OF that, of cs lam selected]
    by (simp add: mmrScore_floored)
  from g h b show ?thesis by (auto simp: sortByScore_hd)
qed

text \<open>
  Claim C1 (the code departs from it). The claim, and the comments of lines 131 and 138
  of the source, take \<open>max_similarity\<close> to be the maximum of the pairwise similarities to
  the selected items; each round is to select the remaining candidate with the highest
  \<open>mmr_score\<close>. Evaluated on three chunks of dimension 384 with the bound 2: the sorted
  candidates are \<open>t\<close> (score 4/5), \<open>a\<close> (3/5) and \<open>b\<close> (-4/5); with \<open>t\<close> selected, \<open>a\<close>
  has similarity 0 to it and \<open>b\<close> has similarity -1, so \<open>mmr_score\<close> is 9/50 for \<open>a\<close> and
  23/50 for \<open>b\<close>. The code returns \<open>[t, a]\<close>: its maximum starts at 0 where the running
  best score beside it starts at \<open>-Infinity\<close>, the similarity -1 counts as 0, and \<open>b\<close>
  scores -6/25.
\<close>

theorem mmr_selection_counterexample:
  "rank cosineSimilarity (vec2 (4/5) (3/5)) 2
     [paper ''t'' (vec2 1 0), paper ''a'' (vec2 0 1), paper ''b'' (vec2 (-1) 0)]
   = [candidate ''t'' (vec2 1 0) (4/5), candidate ''a'' (vec2 0 1) (3/5)]
   \<and> mmr_score cosineSimilarity 0.3 [candidate ''t'' (vec2 1 0) (4/5)]
         (candidate ''a'' (vec2 0 1) (3/5))
     < mmr_score cosineSimilarity 0.3 [candidate ''t'' (vec2 1 0) (4/5)]
         (candidate ''b'' (vec2 (-1) 0) (- (4/5)))"
  by (simp add: rank_def scored3 sorted3 mmr3 claimed_a claimed_b)

subsection \<open>C2: metadata of a successful response\<close>

text \<open>
  Claim C2, as amended. Every response of \<open>POST\<close> that is not an error response carries
  \<open>total_chunks\<close>, the size of the corpus that was loaded, \<open>filtered_chunks\<close>, the size
  of the filtered set, and \<open>filter_applied\<close>, whether the request had a filter. When the
  filtered set is not empty it also carries \<open>returned_chunks\<close>, the number of results,
  and \<open>mmr_diversification\<close>, which is \<open>true\<close> whether or not the greedy selection ran.
  When the filtered set is empty the metadata has neither of these two keys.
\<close>

theorem success_metadata:
  assumes "POST cs s now file (Parsed req) = (Responded r, s1)" and "error r = None"
  shows "\<exists>papers. loadPapers s now file = (Inr papers, s1)
           \<and> total_chunks (meta r) = Some (length papers)
           \<and> filtered_chunks (meta r) = Some (length (applyFilters papers (req_filter req)))
           \<and> filter_applied (meta r) = Some (req_filter req \<noteq> None)
           \<and> (if applyFilters papers (req_filter req) = []
               then returned_chunks (meta r) = None \<and> mmr_diversification (meta r) = None
               else returned_chunks (meta r) = Some (length (results r))
                    \<and> mmr_diversification (meta r) = Some True)"
proof (rule POST_cases [of req cs s now "file"])
  fix message
  assume "POST cs s now file (Parsed req) = (Responded (errorResponse message), s)"
  with assms show ?thesis by auto
next
  fix s2
  assume "POST cs s now file (Parsed req) = (Responded (errorResponse ''Failed to load papers data''), s2)"
  with assms show ?thesis by auto
next
  fix papers s2
  assume "loadPapers s now file = (Inr papers, s2)" "applyFilters papers (req_filter req) = []"
    "POST cs s now file (Parsed req) =
         (Responded
            \<lparr> error = None, results = [],
              meta = \<lparr> total_chunks = Some (length papers), filtered_chunks = Some 0,
                       returned_chunks = None, filter_applied = Some (req_filter req \<noteq> None),
                       mmr_diversification = None, meta_error = None \<rparr>,
              status = 200 \<rparr>, s2)"
  with assms show ?thesis by (intro exI [of _ papers]) auto
next
  fix papers s2
  assume "POST cs s now file (Parsed req) = (NonNumericQuery, s2)"
  with assms show ?thesis by simp
next
  fix papers s2 q
  assume "loadPapers s now file = (Inr papers, s2)" "applyFilters papers (req_filter req) \<noteq> []"
      "POST cs s now file (Parsed req) =
         (Responded
            \<lparr> error = None,
              results = map stripEmbedding
                          (rank cs q (toNumber (topKOrDefault req))
                             (applyFilters papers (req_filter req))),
              meta = \<lparr> total_chunks = Some (length papers),
                       filtered_chunks = Some (length (applyFilters papers (req_filter req))),
                       returned_chunks =
                         Some (length (rank cs q (toNumber (topKOrDefault req))
                                         (applyFilters papers (req_filter req)))),
                       filter_applied = Some (req_filter req \<noteq> None),
                       mmr_diversification = Some True, meta_error = None \<rparr>,
              status = 200 \<rparr>, s2)"
  with assms show ?thesis by (intro exI [of _ papers]) auto
qed

text \<open>
  Three chunks, no filter, the default bound 5: nothing is pruned, all three chunks are
  returned, and \<open>mmr_diversification\<close> is \<open>true\<close>.
\<close>

theorem success_metadata_witness:
  "\<exists>r. POST cosineSimilarity coldStart 1000 (Papers threePapers)
          (Parsed \<lparr> req_queryEmbedding = queryArray (4/5) (3/5), req_topK = JUndefined, req_filter = None \<rparr>)
        = (Responded r, loaded threePapers 1000 1)
      \<and> error r = None
      \<and> length (results r) = 3
      \<and> total_chunks (meta r) = Some 3
      \<and> filtered_chunks (meta r) = Some 3
      \<and> returned_chunks (meta r) = Some 3
      \<and> filter_applied (meta r) = Some False
      \<and> mmr_diversification (meta r) = Some True"
proof -
  let ?req = "\<lparr> req_queryEmbedding = queryArray (4/5) (3/5), req_topK = JUndefined,
                req_filter = None \<rparr>"
  obtain r where p: "POST cosineSimilarity coldStart 1000 (Papers threePapers) (Parsed ?req)
                     = (Responded r, loaded threePapers 1000 1)"
    and e: "error r = None" and n: "length (results r) = 3"
    using POST_three [of JUndefined 0 None] by (simp add: rank3_five)
  from success_metadata [OF p e] n p e show ?thesis
    by (auto simp: loadPapers_coldStart)
qed

text \<open>
  Claim C2 as stated has \<open>returned_chunks\<close> and \<open>mmr_diversification\<close> in the metadata
  of every successful response, the one for an empty filtered set included, and has
  \<open>mmr_diversification\<close> tell whether the selection was engaged. A year filter for 2020
  to 2021 on a corpus without such a chunk succeeds with metadata that has neither key.
  With three candidates and the bound 5, \<open>mmrDiversification\<close> returns its input as it
  is, and the metadata still says \<open>mmr_diversification: true\<close>.
\<close>

theorem success_metadata_counterexample:
  "POST cosineSimilarity coldStart 1000 (Papers oldPapers)
     (Parsed \<lparr> req_queryEmbedding = queryArray (4/5) (3/5), req_topK = JUndefined,
       req_filter = Some (yearsBetween 2020 2021) \<rparr>)
   = (Responded
        \<lparr> error = None, results = [],
          meta = \<lparr> total_chunks = Some 2, filtered_chunks = Some 0,
                   returned_chunks = None, filter_applied = Some True,
                   mmr_diversification = None, meta_error = None \<rparr>,
          status = 200 \<rparr>, loaded oldPapers 1000 1)
   \<and> mmrDiversification cosineSimilarity
        [candidate ''t'' (vec2 1 0) (4/5), candidate ''a'' (vec2 0 1) (3/5),
         candidate ''b'' (vec2 (-1) 0) (- (4/5))] (vec2 (4/5) (3/5)) (3/10) 5
      = [candidate ''t'' (vec2 1 0) (4/5), candidate ''a'' (vec2 0 1) (3/5),
         candidate ''b'' (vec2 (-1) 0) (- (4/5))]
   \<and> POST cosineSimilarity coldStart 1000 (Papers threePapers)
        (Parsed \<lparr> req_queryEmbedding = queryArray (4/5) (3/5), req_topK = JUndefined, req_filter = None \<rparr>)
      = (Responded
           \<lparr> error = None,
             results = map stripEmbedding
                         [candidate ''t'' (vec2 1 0) (4/5), candidate ''a'' (vec2 0 1) (3/5),
                          candidate ''b'' (vec2 (-1) 0) (- (4/5))],
             meta = \<lparr> total_chunks = Some 3, filtered_chunks = Some 3,
                      returned_chunks = Some 3, filter_applied = Some False,
                      mmr_diversification = Some True, meta_error = None \<rparr>,
             status = 200 \<rparr>, loaded threePapers 1000 1)"
proof -
  have "POST cosineSimilarity coldStart 1000 (Papers oldPapers)
     (Parsed \<lparr> req_queryEmbedding = queryArray (4/5) (3/5), req_topK = JUndefined,
       req_filter = Some (yearsBetween 2020 2021) \<rparr>)
   = (Responded
        \<lparr> error = None, results = [],
          meta = \<lparr> total_chunks = Some 2, filtered_chunks = Some 0,
                   returned_chunks = None, filter_applied = Some True,
                   mmr_diversification = None, meta_error = None \<rparr>,
          status = 200 \<rparr>, loaded oldPapers 1000 1)"
    by (rule POST_old) simp
  moreover have "mmrDiversification cosineSimilarity
        [candidate ''t'' (vec2 1 0) (4/5), candidate ''a'' (vec2 0 1) (3/5),
         candidate ''b'' (vec2 (-1) 0) (- (4/5))] (vec2 (4/5) (3/5)) (3/10) 5
      = [candidate ''t'' (vec2 1 0) (4/5), candidate ''a'' (vec2 0 1) (3/5),
         candidate ''b'' (vec2 (-1) 0) (- (4/5))]"
    by (simp add: mmrDiversification_def)
  ultimately show ?thesis
    using POST_three [of JUndefined 0 None] by (simp add: rank3_five)
qed

subsection \<open>C3: validation of topK\<close>

text \<open>
  Claim C3, as amended. For every request whose \<open>topK\<close> is given and is not falsy (not 0,
  \<open>null\<close>, \<open>false\<close> or the empty string): validation passes only if \<open>topK\<close> is a number
  from 1 to 10, whole or not. Any other such \<open>topK\<close> (15, a negative number, a string)
  makes \<open>POST\<close> answer with an error response whose message contains \<open>Invalid\<close>, with
  status 400 and no results, and leaves the server state as it was, storage untouched;
  when the query embedding is an array of length 384 the response is the one for the
  \<open>topK\<close> message.
\<close>

theorem topK_validation:
  assumes "req_topK req = v" and "truthy v"
  shows "(validateInput (req_queryEmbedding req) (topKOrDefault req) (req_filter req) = Inr ()
            \<longrightarrow> (\<exists>x. v = JNum x \<and> 1 \<le> x \<and> x \<le> 10))
         \<and> (\<not> (\<exists>x. v = JNum x \<and> 1 \<le> x \<and> x \<le> 10) \<longrightarrow>
              (\<exists>message. POST cs s now file (Parsed req) = (Responded (errorResponse message), s)
                  \<and> str_includes message ''Invalid''
                  \<and> results (errorResponse message) = []
                  \<and> status (errorResponse message) = 400))
         \<and> ((\<exists>xs. req_queryEmbedding req = JArr xs \<and> length xs = 384)
              \<and> \<not> (\<exists>x. v = JNum x \<and> 1 \<le> x \<and> x \<le> 10) \<longrightarrow>
              POST cs s now file (Parsed req)
              = (Responded (errorResponse ''Invalid topK: must be a number between 1 and 10''), s))"
proof -
  from assms have tk: "topKOrDefault req = v" by (auto simp: topKOrDefault_def)
  have ok: "\<exists>x. v = JNum x \<and> 1 \<le> x \<and> x \<le> 10"
    if "validateInput (req_queryEmbedding req) (topKOrDefault req) (req_filter req) = Inr ()"
    using that assms(2) tk validateInput_topK by auto
  have rejected: "\<exists>message. POST cs s now file (Parsed req) = (Responded (errorResponse message), s)
                  \<and> str_includes message ''Invalid''
                  \<and> results (errorResponse message) = []
                  \<and> status (errorResponse message) = 400"
    if "\<not> (\<exists>x. v = JNum x \<and> 1 \<le> x \<and> x \<le> 10)"
  proof -
    from that ok obtain message
      where m: "validateInput (req_queryEmbedding req) (topKOrDefault req) (req_filter req) = Inl message"
      by (cases "validateInput (req_queryEmbedding req) (topKOrDefault req) (req_filter req)") auto
    then have "POST cs s now file (Parsed req) = (Responded (errorResponse message), s)"
      by (rule POST_invalid)
    moreover from m have "str_includes message ''Invalid''" by (rule validateInput_Invalid)
    ultimately show ?thesis by auto
  qed
  have exact: "POST cs s now file (Parsed req)
        = (Responded (errorResponse ''Invalid topK: must be a number between 1 and 10''), s)"
    if "\<exists>xs. req_queryEmbedding req = JArr xs \<and> length xs = 384"
      and "\<not> (\<exists>x. v = JNum x \<and> 1 \<le> x \<and> x \<le> 10)"
  proof -
    have "validateInput (req_queryEmbedding req) (topKOrDefault req) (req_filter req)
          = Inl ''Invalid topK: must be a number between 1 and 10''"
      using that assms(2) tk by (cases v) (auto simp: validateInput_def)
    then show ?thesis by (rule POST_invalid)
  qed
  from ok rejected exact show ?thesis by blast
qed

theorem topK_validation_witness:
  "req_topK \<lparr> req_queryEmbedding = queryArray (4/5) (3/5), req_topK = JNum 15, req_filter = None \<rparr>
     = JNum 15
   \<and> truthy (JNum 15)
   \<and> validateInput (queryArray (4/5) (3/5)) (JNum 15) None \<noteq> Inr ()
   \<and> POST cosineSimilarity coldStart 1000 (Papers threePapers)
        (Parsed \<lparr> req_queryEmbedding = queryArray (4/5) (3/5), req_topK = JNum 15, req_filter = None \<rparr>)
      = (Responded (errorResponse ''Invalid topK: must be a number between 1 and 10''), coldStart)
   \<and> status (errorResponse ''Invalid topK: must be a number between 1 and 10'') = 400
   \<and> results (errorResponse ''Invalid topK: must be a number between 1 and 10'') = []"
  using topK_validation
          [of "\<lparr> req_queryEmbedding = queryArray (4/5) (3/5), req_topK = JNum 15, req_filter = None \<rparr>"
              "JNum 15" cosineSimilarity coldStart 1000 "Papers threePapers"]
  by (simp add: queryArray_def topKOrDefault_def str_includes_def sublist_code)

text \<open>
  Claim C3 as stated rejects a \<open>topK\<close> that is not a whole number. The request with
  \<open>topK = 2.5\<close> passes validation and is answered with status 200 and three results.
\<close>

theorem topK_validation_counterexample:
  "validateInput (queryArray (4/5) (3/5)) (JNum (5/2)) None = Inr ()
   \<and> POST cosineSimilarity coldStart 1000 (Papers threePapers)
        (Parsed \<lparr> req_queryEmbedding = queryArray (4/5) (3/5), req_topK = JNum (5/2), req_filter = None \<rparr>)
      = (Responded
           \<lparr> error = None,
             results = map stripEmbedding
                         [candidate ''t'' (vec2 1 0) (4/5), candidate ''a'' (vec2 0 1) (3/5),
                          candidate ''b'' (vec2 (-1) 0) (- (4/5))],
             meta = \<lparr> total_chunks = Some 3, filtered_chunks = Some 3,
                      returned_chunks = Some 3, filter_applied = Some False,
                      mmr_diversification = Some True, meta_error = None \<rparr>,
             status = 200 \<rparr>, loaded threePapers 1000 1)"
  using POST_three [of "JNum (5/2)" "5/2" None]
  by (simp add: validateInput_queryArray rank3_fraction)

text \<open>
  The request with \<open>topK = 0\<close> passes validation as well: \<open>topK && ...\<close> skips the range
  test for a falsy value. It is answered with one result.
\<close>

lemma topK_zero_accepted:
  "validateInput (queryArray (4/5) (3/5)) (JNum 0) None = Inr ()
   \<and> POST cosineSimilarity coldStart 1000 (Papers threePapers)
        (Parsed \<lparr> req_queryEmbedding = queryArray (4/5) (3/5), req_topK = JNum 0, req_filter = None \<rparr>)
      = (Responded
           \<lparr> error = None,
             results = map stripEmbedding [candidate ''t'' (vec2 1 0) (4/5)],
             meta = \<lparr> total_chunks = Some 3, filtered_chunks = Some 3,
                      returned_chunks = Some 1, filter_applied = Some False,
                      mmr_diversification = Some True, meta_error = None \<rparr>,
             status = 200 \<rparr>, loaded threePapers 1000 1)"
  using POST_three [of "JNum 0" 0 None]
  by (simp add: validateInput_queryArray rank3_zero)

subsection \<open>C4: records without a year\<close>

text \<open>
  Claim C4, as amended. For every corpus and every filter whose year block gives at
  least one of \<open>min\<close> and \<open>max\<close>, no record whose \<open>year\<close> is absent is in the output of
  \<open>applyFilters\<close>.
\<close>

theorem applyFilters_year_absent:
  assumes "filter_year f = Some yf" and "year_min yf \<noteq> None \<or> year_max yf \<noteq> None"
  shows "\<forall>p \<in> set papers. year p = None \<longrightarrow> p \<notin> set (applyFilters papers (Some f))"
proof (intro ballI impI notI)
  fix p assume "year p = None" and "p \<in> set (applyFilters papers (Some f))"
  then have "p \<in> set (yearStep (Some yf) papers)"
    using assms(1) applyFilters_yearStep [of papers f] by auto
  with assms(2) have "year p \<noteq> None" by (rule yearStep_bounded)
  with \<open>year p = None\<close> show False by simp
qed

theorem applyFilters_year_absent_witness:
  "filter_year \<lparr> filter_year = Some \<lparr> year_min = Some 2020, year_max = None \<rparr>,
                 filter_keywords = None, filter_doc_ids = None \<rparr>
     = Some \<lparr> year_min = Some 2020, year_max = None \<rparr>
   \<and> year_min \<lparr> year_min = Some 2020, year_max = None \<rparr> = Some 2020
   \<and> year (paper ''a'' (vec2 0 1)) = None
   \<and> paper ''a'' (vec2 0 1)
       \<notin> set (applyFilters [paper ''a'' (vec2 0 1), (paper ''t'' (vec2 1 0))\<lparr>year := Some 2021\<rparr>]
                (Some \<lparr> filter_year = Some \<lparr> year_min = Some 2020, year_max = None \<rparr>,
                        filter_keywords = None, filter_doc_ids = None \<rparr>))
   \<and> applyFilters [paper ''a'' (vec2 0 1), (paper ''t'' (vec2 1 0))\<lparr>year := Some 2021\<rparr>]
         (Some \<lparr> filter_year = Some \<lparr> year_min = Some 2020, year_max = None \<rparr>,
                 filter_keywords = None, filter_doc_ids = None \<rparr>)
       = [(paper ''t'' (vec2 1 0))\<lparr>year := Some 2021\<rparr>]"
  using applyFilters_year_absent
          [of "\<lparr> filter_year = Some \<lparr> year_min = Some 2020, year_max = None \<rparr>,
                  filter_keywords = None, filter_doc_ids = None \<rparr>"
              "\<lparr> year_min = Some 2020, year_max = None \<rparr>"
              "[paper ''a'' (vec2 0 1), (paper ''t'' (vec2 1 0))\<lparr>year := Some 2021\<rparr>]"]
  by (simp add: paper_def applyFilters_def yearStep_def keywordStep_def docIdStep_def
        year_at_least_def)

text \<open>
  Claim C4 as stated covers every filter that has a year block. A year block that gives
  neither bound filters nothing: the record without a year stays in the output.
\<close>

theorem applyFilters_year_counterexample:
  "filter_year \<lparr> filter_year = Some \<lparr> year_min = None, year_max = None \<rparr>,
                 filter_keywords = None, filter_doc_ids = None \<rparr> \<noteq> None
   \<and> year (paper ''a'' (vec2 0 1)) = None
   \<and> applyFilters [paper ''a'' (vec2 0 1)]
         (Some \<lparr> filter_year = Some \<lparr> year_min = None, year_max = None \<rparr>,
                 filter_keywords = None, filter_doc_ids = None \<rparr>)
       = [paper ''a'' (vec2 0 1)]"
  by (simp add: paper_def applyFilters_def yearStep_def keywordStep_def docIdStep_def)

subsection \<open>C5: length of the ranked list\<close>

text \<open>
  Claim C5. For every query vector, every list of filtered chunks and every whole result
  bound \<open>k\<close> from 1 to 10, the list that scoring, sorting and \<open>mmrDiversification\<close> return
  has length \<open>min k n\<close>, \<open>n\<close> being the number of filtered chunks; when \<open>n \<le> k\<close> it is the
  list of all scored candidates sorted by descending score, as the sort left it.
\<close>

theorem rank_length:
  assumes "1 \<le> k" and "k \<le> 10"
  shows "length (rank cs q (real k) filteredPapers) = min k (length filteredPapers)
         \<and> (length filteredPapers \<le> k \<longrightarrow>
               rank cs q (real k) filteredPapers
               = sortByScore (computeSimilarities cs q filteredPapers))
         \<and> sorted_wrt (\<lambda>a b. score a \<ge> score b)
               (sortByScore (computeSimilarities cs q filteredPapers))
         \<and> mset (sortByScore (computeSimilarities cs q filteredPapers))
               = mset (computeSimilarities cs q filteredPapers)"
proof -
  have "length (rank cs q (real k) filteredPapers) = min k (length filteredPapers)"
    using assms(1) by (simp add: rank_def mmrDiversification_length)
  moreover have "rank cs q (real k) filteredPapers
                 = sortByScore (computeSimilarities cs q filteredPapers)"
    if "length filteredPapers \<le> k"
    using that by (simp add: rank_def mmrDiversification_def)
  ultimately show ?thesis
    by (simp add: sortByScore_sorted sortByScore_mset)
qed

theorem rank_length_witness:
  "(1::nat) \<le> 2 \<and> (2::nat) \<le> 10
   \<and> length (rank cosineSimilarity (vec2 (4/5) (3/5)) (real 2)
        [paper ''t'' (vec2 1 0), paper ''a'' (vec2 0 1), paper ''b'' (vec2 (-1) 0)]) = 2
   \<and> rank cosineSimilarity (vec2 (4/5) (3/5)) (real 2) [paper ''t'' (vec2 1 0)]
      = [candidate ''t'' (vec2 1 0) (4/5)]"
  using rank_length [of 2 cosineSimilarity "vec2 (4/5) (3/5)"
          "[paper ''t'' (vec2 1 0), paper ''a'' (vec2 0 1), paper ''b'' (vec2 (-1) 0)]"]
        rank_length [of 2 cosineSimilarity "vec2 (4/5) (3/5)" "[paper ''t'' (vec2 1 0)]"]
  by (simp add: computeSimilarities_paper cosineSimilarity_vec2 sortByScore_def)

subsection \<open>C6: validation of the query embedding\<close>

text \<open>
  Claim C6, as amended. For every request whose body is read, that is, holds JSON other
  than \<open>null\<close>, and whose query embedding is not an array of exactly 384 elements (it is
  missing, falsy, not an array, or an array of another length such as 300), \<open>POST\<close>
  answers with the error response of a validation error: its message contains
  \<open>Invalid\<close>, the results list is empty, the status is 400, and the server state is as it
  was. Every error response to such a request has an empty results list; its status is
  400 when validation failed and 500 for every error raised after validation passed.
\<close>

theorem embedding_validation:
  "(\<not> (\<exists>xs. req_queryEmbedding req = JArr xs \<and> length xs = 384) \<longrightarrow>
      (\<exists>message. validateInput (req_queryEmbedding req) (topKOrDefault req) (req_filter req)
                    = Inl message
          \<and> POST cs s now file (Parsed req) = (Responded (errorResponse message), s)
          \<and> str_includes message ''Invalid''
          \<and> results (errorResponse message) = []
          \<and> status (errorResponse message) = 400))
   \<and> (\<forall>r s1. POST cs s now file (Parsed req) = (Responded r, s1) \<and> error r \<noteq> None \<longrightarrow>
         results r = []
         \<and> (if validateInput (req_queryEmbedding req) (topKOrDefault req) (req_filter req) = Inr ()
            then status r = 500
            else status r = 400))"
proof (intro conjI impI allI)
  assume "\<not> (\<exists>xs. req_queryEmbedding req = JArr xs \<and> length xs = 384)"
  then obtain message
    where m: "validateInput (req_queryEmbedding req) (topKOrDefault req) (req_filter req) = Inl message"
    using validateInput_embedding by blast
  then have "POST cs s now file (Parsed req) = (Responded (errorResponse message), s)"
    by (rule POST_invalid)
  moreover from m have "str_includes message ''Invalid''" by (rule validateInput_Invalid)
  ultimately show "\<exists>message. validateInput (req_queryEmbedding req) (topKOrDefault req) (req_filter req)
                    = Inl message
          \<and> POST cs s now file (Parsed req) = (Responded (errorResponse message), s)
          \<and> str_includes message ''Invalid''
          \<and> results (errorResponse message) = []
          \<and> status (errorResponse message) = 400"
    using m by auto
next
  fix r s1
  assume a: "POST cs s now file (Parsed req) = (Responded r, s1) \<and> error r \<noteq> None"
  show "results r = []"
    by (rule POST_cases [of req cs s now "file"]) (use a in auto)
  show "if validateInput (req_queryEmbedding req) (topKOrDefault req) (req_filter req) = Inr ()
        then status r = 500
        else status r = 400"
  proof (rule POST_cases [of req cs s now "file"])
    fix message
    assume "validateInput (req_queryEmbedding req) (topKOrDefault req) (req_filter req) = Inl message"
      "POST cs s now file (Parsed req) = (Responded (errorResponse message), s)"
    with a validateInput_Invalid [of "req_queryEmbedding req" "topKOrDefault req" "req_filter req" message]
    show ?thesis by auto
  next
    fix s2
    assume "validateInput (req_queryEmbedding req) (topKOrDefault req) (req_filter req) = Inr ()"
      "POST cs s now file (Parsed req) = (Responded (errorResponse ''Failed to load papers data''), s2)"
    with a load_message show ?thesis by (auto simp: errorResponse_def)
  qed (use a in auto)
qed

text \<open>The query of dimension 300, whose message \<open>dimension_300_message\<close> gives.\<close>

theorem embedding_validation_witness:
  "\<not> (\<exists>xs. req_queryEmbedding
               \<lparr> req_queryEmbedding = JArr (replicate 300 (JNum 0)), req_topK = JUndefined,
                 req_filter = None \<rparr> = JArr xs \<and> length xs = 384)
   \<and> (\<exists>message.
         POST cosineSimilarity coldStart 1000 (Papers threePapers)
           (Parsed \<lparr> req_queryEmbedding = JArr (replicate 300 (JNum 0)), req_topK = JUndefined,
             req_filter = None \<rparr>)
         = (Responded (errorResponse message), coldStart)
         \<and> str_includes message ''Invalid''
         \<and> results (errorResponse message) = []
         \<and> status (errorResponse message) = 400)"
  using embedding_validation
          [of "\<lparr> req_queryEmbedding = JArr (replicate 300 (JNum 0)), req_topK = JUndefined,
                  req_filter = None \<rparr>" cosineSimilarity coldStart 1000 "Papers threePapers"]
  by auto

text \<open>
  Claim C6 as stated rejects every embedding that is not an array of 384 numbers.
  \<open>validateInput\<close> tests that the value is an array and that its length is 384, not what
  the elements are: an array of 384 strings passes, and with a filter that matches
  nothing the request is answered with status 200.
\<close>

theorem embedding_validation_counterexample:
  "POST cosineSimilarity coldStart 1000 (Papers oldPapers)
     (Parsed \<lparr> req_queryEmbedding = JArr (replicate 384 (JStr ''x'')), req_topK = JUndefined,
       req_filter = Some (yearsBetween 2020 2021) \<rparr>)
   = (Responded
        \<lparr> error = None, results = [],
          meta = \<lparr> total_chunks = Some 2, filtered_chunks = Some 0,
                   returned_chunks = None, filter_applied = Some True,
                   mmr_diversification = None, meta_error = None \<rparr>,
          status = 200 \<rparr>, loaded oldPapers 1000 1)"
  by (rule POST_old) simp

text \<open>
  A body that is not read is left out of the amended claim. It has no query embedding
  either, and its response is the one of the \<open>catch\<close> block for the message of the error
  that the first statement threw: status 500 unless that message happens to contain
  \<open>Invalid\<close>. For the body \<open>null\<close> the message of Node's engine is \<open>Cannot destructure
  property 'queryEmbedding' of '(intermediate value)' as it is null.\<close>, for an empty
  body it is \<open>Unexpected end of JSON input\<close>.
\<close>

lemma unread_body_response:
  "POST cs s now file (Thrown message) = (Responded (errorResponse message), s)
   \<and> results (errorResponse message) = []
   \<and> status (errorResponse message) = (if str_includes message ''Invalid'' then 400 else 500)"
  by (simp add: POST_thrown)

lemma empty_body_status:
  "status (errorResponse ''Unexpected end of JSON input'') = 500"
  by (simp add: str_includes_def sublist_code)

subsection \<open>C7: a filter that matches nothing\<close>

text \<open>
  Claim C7. For every request that passes validation, when the corpus is loaded and the
  filter matches none of its records, \<open>POST\<close> answers with a response that is not an
  error (no \<open>error\<close> key, status 200), with an empty results list and with
  \<open>filtered_chunks\<close> equal to 0 in the metadata.
\<close>

theorem empty_filter_result:
  assumes "validateInput (req_queryEmbedding req) (topKOrDefault req) (req_filter req) = Inr ()"
    and "loadPapers s now file = (Inr papers, s1)"
    and "applyFilters papers (req_filter req) = []"
  shows "\<exists>r. POST cs s now file (Parsed req) = (Responded r, s1)
             \<and> error r = None \<and> status r = 200 \<and> results r = []
             \<and> filtered_chunks (meta r) = Some 0
             \<and> total_chunks (meta r) = Some (length papers)
             \<and> meta_error (meta r) = None"
  using POST_empty [OF assms, of cs] by simp

theorem empty_filter_result_witness:
  "validateInput (queryArray (4/5) (3/5)) (JNum 5) (Some (yearsBetween 2020 2021)) = Inr ()
   \<and> loadPapers coldStart 1000 (Papers oldPapers) = (Inr oldPapers, loaded oldPapers 1000 1)
   \<and> applyFilters oldPapers (Some (yearsBetween 2020 2021)) = []
   \<and> (\<exists>r. POST cosineSimilarity coldStart 1000 (Papers oldPapers)
              (Parsed \<lparr> req_queryEmbedding = queryArray (4/5) (3/5), req_topK = JUndefined,
                req_filter = Some (yearsBetween 2020 2021) \<rparr>)
            = (Responded r, loaded oldPapers 1000 1)
          \<and> error r = None \<and> status r = 200 \<and> results r = []
          \<and> filtered_chunks (meta r) = Some 0 \<and> total_chunks (meta r) = Some 2)"
proof -
  let ?req = "\<lparr> req_queryEmbedding = queryArray (4/5) (3/5), req_topK = JUndefined,
                req_filter = Some (yearsBetween 2020 2021) \<rparr>"
  have v: "validateInput (req_queryEmbedding ?req) (topKOrDefault ?req) (req_filter ?req) = Inr ()"
    by (simp add: validateInput_queryArray topKOrDefault_def yearsBetween_def yearOutOfRange_def)
  have l: "loadPapers coldStart 1000 (Papers oldPapers) = (Inr oldPapers, loaded oldPapers 1000 1)"
    by (rule loadPapers_coldStart)
  have f: "applyFilters oldPapers (req_filter ?req) = []"
    by (simp add: applyFilters_oldPapers)
  from empty_filter_result [OF v l f, of cosineSimilarity] v l f show ?thesis
    by (auto simp: topKOrDefault_def oldPapers_def numeral_2_eq_2)
qed

subsection \<open>C8: the corpus cache\<close>

text \<open>
  What holds of the cache. When a cached collection exists and its age \<open>now - t\<close> is
  below 5 minutes (\<open>t\<close> being the time of the load, never 0 for a value of
  \<open>Date.now()\<close>), \<open>loadPapers\<close> returns it and leaves the state as it was: storage is not
  read, whatever it holds. When there is no fresh cache and the file cannot be read or
  does not hold JSON, \<open>loadPapers\<close> fails with the load error after one read of storage,
  the cached collection and its timestamp are what they were, and \<open>POST\<close> passes the
  error on as a response of status 500 with no results, also when a stale collection is
  still cached.
\<close>

lemma loadPapers_cache:
  "(papersCache s = Some cached \<and> cacheTimestamp s = Some t \<and> t \<noteq> 0 \<and> now - t < 5 * 60 * 1000
      \<longrightarrow> loadPapers s now file = (Inr cached, s))
   \<and> (freshCache s now = None \<longrightarrow>
        (\<exists>s1. loadPapers s now Unreadable = (Inl ''Failed to load papers data'', s1)
              \<and> papersCache s1 = papersCache s \<and> cacheTimestamp s1 = cacheTimestamp s
              \<and> storageReads s1 = storageReads s + 1
              \<and> (validateInput (req_queryEmbedding req) (topKOrDefault req) (req_filter req) = Inr ()
                    \<longrightarrow> POST cs s now Unreadable (Parsed req)
                          = (Responded (errorResponse ''Failed to load papers data''), s1)
                        \<and> results (errorResponse ''Failed to load papers data'') = []
                        \<and> status (errorResponse ''Failed to load papers data'') = 500)))"
proof (intro conjI impI)
  assume "papersCache s = Some cached \<and> cacheTimestamp s = Some t \<and> t \<noteq> 0 \<and> now - t < 5 * 60 * 1000"
  then have "freshCache s now = Some cached" by (simp add: freshCache_Some)
  then show "loadPapers s now file = (Inr cached, s)" by (simp add: loadPapers_def)
next
  assume stale: "freshCache s now = None"
  let ?s1 = "s\<lparr>storageReads := storageReads s + 1\<rparr>"
  have l: "loadPapers s now Unreadable = (Inl ''Failed to load papers data'', ?s1)"
    using stale by (simp add: loadPapers_def)
  have "POST cs s now Unreadable (Parsed req) = (Responded (errorResponse ''Failed to load papers data''), ?s1)"
    if "validateInput (req_queryEmbedding req) (topKOrDefault req) (req_filter req) = Inr ()"
    using that l by (rule POST_load_failed)
  moreover have "status (errorResponse ''Failed to load papers data'') = 500"
    using load_message by (simp add: errorResponse_def)
  moreover have "results (errorResponse ''Failed to load papers data'') = []"
    by (simp add: errorResponse_def)
  ultimately show "\<exists>s1. loadPapers s now Unreadable = (Inl ''Failed to load papers data'', s1)
              \<and> papersCache s1 = papersCache s \<and> cacheTimestamp s1 = cacheTimestamp s
              \<and> storageReads s1 = storageReads s + 1
              \<and> (validateInput (req_queryEmbedding req) (topKOrDefault req) (req_filter req) = Inr ()
                    \<longrightarrow> POST cs s now Unreadable (Parsed req)
                          = (Responded (errorResponse ''Failed to load papers data''), s1)
                        \<and> results (errorResponse ''Failed to load papers data'') = []
                        \<and> status (errorResponse ''Failed to load papers data'') = 500)"
    using l by (intro exI [of _ ?s1]) simp
qed

text \<open>
  Claim C8 (the code departs from it). The claim has a reload from a malformed store
  fail with the load error and leave the cached collection and its timestamp unchanged.
  Evaluated with three chunks cached at time 1000, a call at time 400000 (the cache is
  stale) and a file that holds \<open>null\<close>: the call fails with the load error, but the
  collection is gone from the cache and the timestamp is the time of the call. Lines 55
  and 56 assign both variables before line 58 reads \<open>data.length\<close>, which is what throws.
\<close>

theorem loadPapers_null_file:
  "freshCache (loaded threePapers 1000 1) 400000 = None
   \<and> loadPapers (loaded threePapers 1000 1) 400000 JsonNull
       = (Inl ''Failed to load papers data'',
          \<lparr> papersCache = None, cacheTimestamp = Some 400000, storageReads = 2 \<rparr>)
   \<and> loadPapers (loaded threePapers 1000 1) 400000 Unreadable
       = (Inl ''Failed to load papers data'', loaded threePapers 1000 2)"
  by (simp add: loadPapers_def freshCache_def loaded_def CACHE_DURATION_def)

subsection \<open>C9: stripping the embedding\<close>

text \<open>
  Claim C9. For every scored candidate, the object left by the rest pattern has no
  \<open>embedding\<close> key and, under every other key, the value the candidate has there; its
  keys are \<open>doc_id\<close>, \<open>doc_title\<close>, \<open>year\<close>, \<open>url\<close>, \<open>chunk_id\<close>, \<open>text\<close> and \<open>score\<close>.
  Every result object of every response of \<open>POST\<close> has these seven keys and no
  \<open>embedding\<close> key.
\<close>

theorem strip_keeps_fields:
  "map_of (stripEmbedding c) ''embedding'' = None
   \<and> (\<forall>k. k \<noteq> ''embedding'' \<longrightarrow> map_of (stripEmbedding c) k = map_of (properties c) k)
   \<and> map fst (stripEmbedding c)
       = [''doc_id'', ''doc_title'', ''year'', ''url'', ''chunk_id'', ''text'', ''score'']
   \<and> map_of (stripEmbedding c) ''doc_id'' = Some (JStr (doc_id c))
   \<and> map_of (stripEmbedding c) ''doc_title'' = Some (JStr (doc_title c))
   \<and> map_of (stripEmbedding c) ''chunk_id'' = Some (JStr (chunk_id c))
   \<and> map_of (stripEmbedding c) ''text'' = Some (JStr (chunk_text c))
   \<and> map_of (stripEmbedding c) ''score'' = Some (JNum (score c))
   \<and> (\<forall>r s1. POST cs s now file (Parsed req) = (Responded r, s1) \<longrightarrow>
         (\<forall>ob \<in> set (results r).
            ''embedding'' \<notin> fst ` set ob
            \<and> {''doc_id'', ''doc_title'', ''year'', ''url'', ''chunk_id'', ''text'', ''score''}
                \<subseteq> fst ` set ob))"
proof -
  have keys: "''embedding'' \<notin> fst ` set ob
            \<and> {''doc_id'', ''doc_title'', ''year'', ''url'', ''chunk_id'', ''text'', ''score''}
                \<subseteq> fst ` set ob"
    if "ob \<in> set (map stripEmbedding cands)" for ob cands
  proof -
    from that obtain c' where "ob = stripEmbedding c'" by auto
    then show ?thesis by (simp add: stripEmbedding_eq)
  qed
  have post: "\<forall>ob \<in> set (results r).
            ''embedding'' \<notin> fst ` set ob
            \<and> {''doc_id'', ''doc_title'', ''year'', ''url'', ''chunk_id'', ''text'', ''score''}
                \<subseteq> fst ` set ob"
    if "POST cs s now file (Parsed req) = (Responded r, s1)" for r s1
  proof (rule POST_cases [of req cs s now "file"])
    fix papers s2 q
    assume "POST cs s now file (Parsed req) =
         (Responded
            \<lparr> error = None,
              results = map stripEmbedding
                          (rank cs q (toNumber (topKOrDefault req))
                             (applyFilters papers (req_filter req))),
              meta = \<lparr> total_chunks = Some (length papers),
                       filtered_chunks = Some (length (applyFilters papers (req_filter req))),
                       returned_chunks =
                         Some (length (rank cs q (toNumber (topKOrDefault req))
                                         (applyFilters papers (req_filter req)))),
                       filter_applied = Some (req_filter req \<noteq> None),
                       mmr_diversification = Some True, meta_error = None \<rparr>,
              status = 200 \<rparr>, s2)"
    with that have "results r = map stripEmbedding
                          (rank cs q (toNumber (topKOrDefault req))
                             (applyFilters papers (req_filter req)))"
      by auto
    with keys show ?thesis by metis
  qed (use that in auto)
  have "map_of (stripEmbedding c) k = map_of (properties c) k" if "k \<noteq> ''embedding''" for k
    using that by (simp add: stripEmbedding_def map_of_omit)
  moreover have "map_of (stripEmbedding c) ''embedding'' = None"
    by (simp add: stripEmbedding_def map_of_omit)
  ultimately show ?thesis
    using post by (simp add: stripEmbedding_eq)
qed

theorem strip_keeps_fields_witness:
  "map_of (properties (candidate ''t'' (vec2 1 0) (4/5))) ''embedding''
     = Some (JArr (map JNum (vec2 1 0)))
   \<and> map_of (stripEmbedding (candidate ''t'' (vec2 1 0) (4/5))) ''embedding'' = None
   \<and> map_of (stripEmbedding (candidate ''t'' (vec2 1 0) (4/5))) ''score'' = Some (JNum (4/5))
   \<and> (\<exists>r. POST cosineSimilarity coldStart 1000 (Papers threePapers)
             (Parsed \<lparr> req_queryEmbedding = queryArray (4/5) (3/5), req_topK = JNum 2, req_filter = None \<rparr>)
           = (Responded r, loaded threePapers 1000 1)
         \<and> length (results r) = 2
         \<and> (\<forall>ob \<in> set (results r).
               ''embedding'' \<notin> fst ` set ob
               \<and> {''doc_id'', ''doc_title'', ''year'', ''url'', ''chunk_id'', ''text'', ''score''}
                   \<subseteq> fst ` set ob))"
proof -
  let ?req = "\<lparr> req_queryEmbedding = queryArray (4/5) (3/5), req_topK = JNum 2,
                req_filter = None \<rparr>"
  obtain r where p: "POST cosineSimilarity coldStart 1000 (Papers threePapers) (Parsed ?req)
                     = (Responded r, loaded threePapers 1000 1)"
    and n: "length (results r) = 2"
    using POST_three [of "JNum 2" 2 None] by (simp add: rank3_two)
  from strip_keeps_fields [of "candidate ''t'' (vec2 1 0) (4/5)" cosineSimilarity coldStart 1000
         "Papers threePapers" ?req] p n
  show ?thesis
    by (auto simp: properties_def candidate_def)
qed

subsection \<open>C10: the filter_applied flag\<close>

text \<open>
  Claim C10, as amended. \<open>applyFilters\<close> with the empty filter object returns the corpus
  as it is. In every response that is not an error response, \<open>filter_applied\<close> is
  \<open>true\<close> when the request supplies a filter object, the empty one included, and
  \<open>false\<close> when it supplies none: the flag reports that a filter was given, not that it
  excluded anything. An error response has no \<open>filter_applied\<close> flag.
\<close>

theorem filter_applied_flag:
  "applyFilters papers
     (Some \<lparr> filter_year = None, filter_keywords = None, filter_doc_ids = None \<rparr>) = papers
   \<and> (\<forall>r s1. POST cs s now file (Parsed req) = (Responded r, s1) \<longrightarrow>
         filter_applied (meta r)
         = (if error r = None then Some (req_filter req \<noteq> None) else None))
   \<and> (\<forall>message r s1. POST cs s now file (Thrown message) = (Responded r, s1) \<longrightarrow>
         error r \<noteq> None \<and> filter_applied (meta r) = None)"
proof -
  have 1: "applyFilters papers
     (Some \<lparr> filter_year = None, filter_keywords = None, filter_doc_ids = None \<rparr>) = papers"
    by (simp add: applyFilters_def yearStep_def keywordStep_def docIdStep_def)
  have 2: "filter_applied (meta r)
        = (if error r = None then Some (req_filter req \<noteq> None) else None)"
    if a: "POST cs s now file (Parsed req) = (Responded r, s1)" for r s1
    by (rule POST_cases [of req cs s now "file"]) (use a in auto)
  have 3: "error r \<noteq> None \<and> filter_applied (meta r) = None"
    if "POST cs s now file (Thrown message) = (Responded r, s1)" for message r s1
  proof -
    from that have "r = errorResponse message" by (simp add: POST_thrown)
    then show ?thesis by simp
  qed
  from 1 2 3 show ?thesis by blast
qed

text \<open>
  The empty filter object and no filter at all, on three chunks: both responses hold all
  three chunks, the first with \<open>filter_applied: true\<close>, the second with
  \<open>filter_applied: false\<close>.
\<close>

theorem filter_applied_flag_witness:
  "applyFilters threePapers
     (Some \<lparr> filter_year = None, filter_keywords = None, filter_doc_ids = None \<rparr>) = threePapers
   \<and> (\<exists>r. POST cosineSimilarity coldStart 1000 (Papers threePapers)
             (Parsed \<lparr> req_queryEmbedding = queryArray (4/5) (3/5), req_topK = JUndefined,
               req_filter = Some \<lparr> filter_year = None, filter_keywords = None,
                                   filter_doc_ids = None \<rparr> \<rparr>)
           = (Responded r, loaded threePapers 1000 1)
         \<and> error r = None
         \<and> filter_applied (meta r) = Some True
         \<and> filtered_chunks (meta r) = Some 3 \<and> total_chunks (meta r) = Some 3)
   \<and> (\<exists>r. POST cosineSimilarity coldStart 1000 (Papers threePapers)
             (Parsed \<lparr> req_queryEmbedding = queryArray (4/5) (3/5), req_topK = JUndefined,
               req_filter = None \<rparr>)
           = (Responded r, loaded threePapers 1000 1)
         \<and> error r = None
         \<and> filter_applied (meta r) = Some False
         \<and> filtered_chunks (meta r) = Some 3 \<and> total_chunks (meta r) = Some 3)"
proof -
  let ?req = "\<lparr> req_queryEmbedding = queryArray (4/5) (3/5), req_topK = JUndefined,
                req_filter = Some \<lparr> filter_year = None, filter_keywords = None,
                                    filter_doc_ids = None \<rparr> \<rparr>"
  let ?plain = "\<lparr> req_queryEmbedding = queryArray (4/5) (3/5), req_topK = JUndefined,
                 req_filter = None \<rparr>"
  obtain r where p: "POST cosineSimilarity coldStart 1000 (Papers threePapers) (Parsed ?req)
                     = (Responded r, loaded threePapers 1000 1)"
    and e: "error r = None"
    and m: "filtered_chunks (meta r) = Some 3" "total_chunks (meta r) = Some 3"
    using POST_three [of JUndefined 0 "Some emptyFilter"] by (simp add: emptyFilter_def)
  obtain r0 where p0: "POST cosineSimilarity coldStart 1000 (Papers threePapers) (Parsed ?plain)
                     = (Responded r0, loaded threePapers 1000 1)"
    and e0: "error r0 = None"
    and m0: "filtered_chunks (meta r0) = Some 3" "total_chunks (meta r0) = Some 3"
    using POST_three [of JUndefined 0 None] by simp
  from filter_applied_flag [of threePapers cosineSimilarity coldStart 1000 "Papers threePapers" ?req]
    p e m
  have 1: "applyFilters threePapers
     (Some \<lparr> filter_year = None, filter_keywords = None, filter_doc_ids = None \<rparr>) = threePapers"
    and 2: "filter_applied (meta r) = Some True"
    by auto
  from filter_applied_flag [of threePapers cosineSimilarity coldStart 1000 "Papers threePapers" ?plain]
    p0 e0
  have 3: "filter_applied (meta r0) = Some False"
    by auto
  from 1 2 3 p e m p0 e0 m0 show ?thesis by blast
qed

text \<open>
  Claim C10 as stated gives every request that supplies a filter object a response whose
  \<open>filter_applied\<close> flag is \<open>true\<close>. A request with the empty filter object and the bound
  15 is answered by the \<open>catch\<close> block, whose metadata is \<open>{ error: true }\<close>: there is no
  flag.
\<close>

theorem filter_applied_flag_counterexample:
  "POST cosineSimilarity coldStart 1000 (Papers threePapers)
     (Parsed \<lparr> req_queryEmbedding = queryArray (4/5) (3/5), req_topK = JNum 15,
       req_filter = Some \<lparr> filter_year = None, filter_keywords = None,
                           filter_doc_ids = None \<rparr> \<rparr>)
   = (Responded (errorResponse ''Invalid topK: must be a number between 1 and 10''), coldStart)
   \<and> filter_applied (meta (errorResponse ''Invalid topK: must be a number between 1 and 10''))
       = None
   \<and> meta_error (meta (errorResponse ''Invalid topK: must be a number between 1 and 10''))
       = Some True"
proof -
  have "validateInput
          (req_queryEmbedding \<lparr> req_queryEmbedding = queryArray (4/5) (3/5), req_topK = JNum 15,
             req_filter = Some \<lparr> filter_year = None, filter_keywords = None,
                                 filter_doc_ids = None \<rparr> \<rparr>)
          (topKOrDefault \<lparr> req_queryEmbedding = queryArray (4/5) (3/5), req_topK = JNum 15,
             req_filter = Some \<lparr> filter_year = None, filter_keywords = None,
                                 filter_doc_ids = None \<rparr> \<rparr>)
          (req_filter \<lparr> req_queryEmbedding = queryArray (4/5) (3/5), req_topK = JNum 15,
             req_filter = Some \<lparr> filter_year = None, filter_keywords = None,
                                 filter_doc_ids = None \<rparr> \<rparr>)
        = Inl ''Invalid topK: must be a number between 1 and 10''"
    by (simp add: validateInput_queryArray topKOrDefault_def)
  from POST_invalid [OF this, of cosineSimilarity coldStart 1000 "Papers threePapers"]
  show ?thesis by simp
qed

end
